theory Spec2Isabelle
  imports Complex_Main
begin

section \<open>JavaScript values used by the extractor\<close>

text \<open>
  The extractor is TypeScript. Its numbers are modelled as exact rationals (\<open>rat\<close>) where the
  source divides (percentages, positions, success rates) and as \<open>int\<close> where it only adds and
  subtracts whole numbers (confidences, indices); IEEE rounding is not modelled. Its strings
  are \<open>string\<close>, a list of 8-bit code units; the non-Latin literals of the source are written
  with their \<open>\u\<close> escapes.

  A HOL string literal cannot hold a backslash, so a regular expression source is written
  with \<open>%\<close> where the source has a backslash and read through \<open>bsl\<close>.
\<close>

definition bsl :: "string \<Rightarrow> string" where
  "bsl s = map (\<lambda>c. if c = CHR ''%'' then CHR 0x5C else c) s"

text \<open>
  A regular expression object is its source and its flags. What the engine of the host
  does with it is not code of this repository: it is the parameter \<open>Runtime\<close>.
  \<open>exec js r s\<close> is the result of \<^verbatim>\<open>s.match(r)\<close> for a regular expression without the
  global flag: \<open>None\<close> for \<^verbatim>\<open>null\<close>, otherwise the array of the whole match and the capture
  groups, a group that took no part being \<open>None\<close> (\<^verbatim>\<open>undefined\<close>). The program creates
  its regular expressions with the flag \<open>i\<close> or with none, so a match does not depend on
  the matches made before it, and \<^verbatim>\<open>r.test(s)\<close> is true where \<^verbatim>\<open>s.match(r)\<close> is not null.
  \<open>compiles js src\<close> says that \<^verbatim>\<open>new RegExp(src, 'i')\<close> does not throw.
\<close>

datatype RegExp = RegExp (source: string) (flags: string)

record Runtime =
  compiles :: "string \<Rightarrow> bool"
  exec :: "RegExp \<Rightarrow> string \<Rightarrow> string option list option"

definition test :: "Runtime \<Rightarrow> RegExp \<Rightarrow> string \<Rightarrow> bool" where
  "test js r s = (exec js r s \<noteq> None)"

text \<open>\<^verbatim>\<open>const m = s.match(r); if (m && m[k])\<close>: the group, when it is a non-empty string.\<close>

definition capture :: "Runtime \<Rightarrow> RegExp \<Rightarrow> nat \<Rightarrow> string \<Rightarrow> string option" where
  "capture js r k s =
     (case exec js r s of
        None \<Rightarrow> None
      | Some gs \<Rightarrow>
          if k < length gs
          then (case gs ! k of None \<Rightarrow> None | Some m \<Rightarrow> if m = [] then None else Some m)
          else None)"

subsection \<open>String operations\<close>

fun splitOn :: "char \<Rightarrow> string \<Rightarrow> string list" where
  "splitOn c [] = [[]]"
| "splitOn c (x # xs) =
     (if x = c then [] # splitOn c xs
      else (case splitOn c xs of [] \<Rightarrow> [[x]] | l # ls \<Rightarrow> (x # l) # ls))"

fun joinWith :: "char \<Rightarrow> string list \<Rightarrow> string" where
  "joinWith c [] = []"
| "joinWith c [l] = l"
| "joinWith c (l # ls) = l @ c # joinWith c ls"

definition slice :: "'a list \<Rightarrow> nat \<Rightarrow> nat \<Rightarrow> 'a list" where
  "slice xs s e = take (e - s) (drop s xs)"

definition newline :: char where
  "newline = CHR 0x0A"

definition backslash :: char where
  "backslash = CHR 0x5C"

text \<open>\<^verbatim>\<open>String.prototype.trim\<close>: white space and line terminators, among the 8-bit code units.\<close>

definition isWhiteSpace :: "char \<Rightarrow> bool" where
  "isWhiteSpace c = (c \<in> set [CHR 0x09, CHR 0x0A, CHR 0x0B, CHR 0x0C, CHR 0x0D, CHR 0x20, CHR 0xA0])"

definition trim :: "string \<Rightarrow> string" where
  "trim s = rev (dropWhile isWhiteSpace (rev (dropWhile isWhiteSpace s)))"

text \<open>\<^verbatim>\<open>String.prototype.toLowerCase\<close> on 8-bit code units: A-Z and the Latin-1 capitals.\<close>

definition toLowerChar :: "char \<Rightarrow> char" where
  "toLowerChar c =
     (let n = (of_char c :: nat)
      in if (65 \<le> n \<and> n \<le> 90) \<or> (192 \<le> n \<and> n \<le> 222 \<and> n \<noteq> 215)
         then char_of (n + 32) else c)"

definition toLowerCase :: "string \<Rightarrow> string" where
  "toLowerCase s = map toLowerChar s"

text \<open>\<^verbatim>\<open>s.indexOf(t)\<close>, with \<open>None\<close> for \<open>-1\<close>, and \<^verbatim>\<open>s.includes(t)\<close>.\<close>

fun strIndexOf :: "string \<Rightarrow> string \<Rightarrow> nat option" where
  "strIndexOf [] t = (if t = [] then Some 0 else None)"
| "strIndexOf (c # cs) t =
     (if take (length t) (c # cs) = t then Some 0
      else map_option Suc (strIndexOf cs t))"

definition strIncludes :: "string \<Rightarrow> string \<Rightarrow> bool" where
  "strIncludes s t = (strIndexOf s t \<noteq> None)"

text \<open>
  \<^verbatim>\<open>s.replace(/[-\/\\^$*+?.()|[\]{}]/g, '\\$&')\<close>: every listed character gets a backslash
  in front of it. The replacement is written out; it is the one use of a regular expression
  in the learning code that does not depend on the text searched.
\<close>

definition regExpSpecial :: "char \<Rightarrow> bool" where
  "regExpSpecial c = (c \<in> set (''-/^$*+?.()|[]{}'' @ [backslash]))"

definition escapeRegExp :: "string \<Rightarrow> string" where
  "escapeRegExp s = concat (map (\<lambda>c. if regExpSpecial c then [backslash, c] else [c]) s)"

section \<open>Section divider (layoutDetection.ts)\<close>

record DocumentSection =
  startPercentage :: rat
  endPercentage :: rat
  content :: string
  isCustomerInfoSection :: bool
  isSignatureSection :: bool

datatype JsError = TypeError

definition customerKeywords :: "RegExp list" where
  "customerKeywords =
     [RegExp ''customer information'' ''i'',
      RegExp ''customer info'' ''i'',
      RegExp ''client information'' ''i'',
      RegExp (bsl ''%u0628%u064A%u0627%u0646%u0627%u062A %u0627%u0644%u0639%u0645%u064A%u0644'') ''i'',
      RegExp (bsl ''%u0645%u0639%u0644%u0648%u0645%u0627%u062A %u0627%u0644%u0639%u0645%u064A%u0644'') ''i'',
      RegExp ''customer'' ''i'']"

definition customerHeaderPatterns :: "RegExp list" where
  "customerHeaderPatterns =
     [RegExp ''CUSTOMER INFORMATION'' ''i'',
      RegExp ''customer information'' ''i'',
      RegExp ''Customer Details'' ''i'',
      RegExp ''CLIENT DETAILS'' ''i'']"

definition nameFieldTest :: "Runtime \<Rightarrow> string \<Rightarrow> bool" where
  "nameFieldTest js c =
     (test js (RegExp (bsl ''name%s*[:%.%s]'') ''i'') c \<and>
      (test js (RegExp (bsl ''MR%s*%.'') ''i'') c \<or>
       test js (RegExp ''phone'' ''i'') c \<or>
       test js (RegExp ''FTTH'' ''i'') c))"

definition detectCustomerInfoSection :: "Runtime \<Rightarrow> DocumentSection list \<Rightarrow> int" where
  "detectCustomerInfoSection js sections =
     (let topSections = filter (\<lambda>i. endPercentage (sections ! i) \<le> 40) [0..<length sections]
      in case find (\<lambda>i. list_ex (\<lambda>p. test js p (content (sections ! i))) customerHeaderPatterns)
                topSections of
           Some i \<Rightarrow> int i
         | None \<Rightarrow>
            (case find (\<lambda>i. list_ex (\<lambda>k. test js k (content (sections ! i))) customerKeywords)
                    topSections of
               Some i \<Rightarrow> int i
             | None \<Rightarrow>
                (case find (\<lambda>i. nameFieldTest js (content (sections ! i))) topSections of
                   Some i \<Rightarrow> int i
                 | None \<Rightarrow> 0)))"

definition signatureKeywords :: "RegExp list" where
  "signatureKeywords =
     [RegExp ''office use only'' ''i'',
      RegExp ''signature'' ''i'',
      RegExp ''sign'' ''i'',
      RegExp (bsl ''%u0644%u0644%u0627%u0633%u062A%u0639%u0645%u0627%u0644 %u0627%u0644%u0631%u0633%u0645%u064A'') ''i'',
      RegExp (bsl ''%u062A%u0648%u0642%u064A%u0639'') ''i'',
      RegExp ''office'' ''i'',
      RegExp ''OFFICE USE ONLY'' ''i'',
      RegExp (bsl ''Regional%s+Sales%s+Manager'') ''i'',
      RegExp (bsl ''Back%s+Office%s+Manager'') ''i'',
      RegExp (bsl ''Sales%s+Director'') ''i'',
      RegExp (bsl ''Customer%s+Operation'') ''i'',
      RegExp (bsl ''Customer%s+Signature'') ''i'',
      RegExp (bsl ''Technical%s+Report'') ''i'']"

definition signatureLineTest :: "Runtime \<Rightarrow> string \<Rightarrow> bool" where
  "signatureLineTest js c =
     ((test js (RegExp ''Manager'' ''i'') c \<and> test js (RegExp ''Name'' ''i'') c) \<or>
      test js (RegExp ''Director'' ''i'') c \<or>
      test js (RegExp ''Signature:'' ''i'') c \<or>
      (test js (RegExp ''Date:'' ''i'') c \<and> test js (RegExp ''Sign'' ''i'') c))"

definition detectSignatureSection :: "Runtime \<Rightarrow> DocumentSection list \<Rightarrow> int" where
  "detectSignatureSection js sections =
     (let bottomSections = filter (\<lambda>i. startPercentage (sections ! i) \<ge> 50) [0..<length sections]
      in case find (\<lambda>i. list_ex (\<lambda>k. test js k (content (sections ! i))) signatureKeywords)
                bottomSections of
           Some i \<Rightarrow> int i
         | None \<Rightarrow>
            (case find (\<lambda>i. signatureLineTest js (content (sections ! i))) bottomSections of
               Some i \<Rightarrow> int i
             | None \<Rightarrow> - 1))"

text \<open>
  The loop body of \<^verbatim>\<open>divideDocumentIntoSections\<close> for one \<open>i\<close>. \<open>sectionCount\<close> is an
  integer (the specification's type); the loop runs for \<open>0 \<le> i < sectionCount\<close>.
\<close>

definition sectionAt :: "string list \<Rightarrow> int \<Rightarrow> nat \<Rightarrow> DocumentSection" where
  "sectionAt lines sectionCount i =
     (let totalLines = length lines;
          startLine = nat \<lfloor>(of_nat i / of_int sectionCount) * (of_nat totalLines :: rat)\<rfloor>;
          endLine = nat \<lfloor>(of_nat (i + 1) / of_int sectionCount) * (of_nat totalLines :: rat)\<rfloor>;
          sectionLines = slice lines startLine endLine
      in \<lparr> startPercentage = (of_nat i / of_int sectionCount) * 100,
           endPercentage = (of_nat (i + 1) / of_int sectionCount) * 100,
           content = joinWith newline sectionLines,
           isCustomerInfoSection = False,
           isSignatureSection = False \<rparr>)"

text \<open>
  \<^verbatim>\<open>sectionsArray[k].isCustomerInfoSection = true\<close> throws a TypeError when
  \<^verbatim>\<open>sectionsArray[k]\<close> is \<^verbatim>\<open>undefined\<close>, that is when \<open>k\<close> is not an index of the array.
\<close>

definition markCustomerInfo :: "DocumentSection list \<Rightarrow> int \<Rightarrow> JsError + DocumentSection list" where
  "markCustomerInfo xs k =
     (if k \<ge> 0
      then (if nat k < length xs
            then Inr (xs[nat k := (xs ! nat k)\<lparr>isCustomerInfoSection := True\<rparr>])
            else Inl TypeError)
      else Inr xs)"

definition markSignature :: "DocumentSection list \<Rightarrow> int \<Rightarrow> JsError + DocumentSection list" where
  "markSignature xs k =
     (if k \<ge> 0
      then (if nat k < length xs
            then Inr (xs[nat k := (xs ! nat k)\<lparr>isSignatureSection := True\<rparr>])
            else Inl TypeError)
      else Inr xs)"

definition divideDocumentIntoSections ::
    "Runtime \<Rightarrow> string \<Rightarrow> int \<Rightarrow> JsError + DocumentSection list" where
  "divideDocumentIntoSections js txt sectionCount =
     (let lines = splitOn newline txt;
          sectionsArray = map (sectionAt lines sectionCount) [0..<nat sectionCount];
          customerInfoIndex = detectCustomerInfoSection js sectionsArray
      in case markCustomerInfo sectionsArray customerInfoIndex of
           Inl e \<Rightarrow> Inl e
         | Inr tagged \<Rightarrow> markSignature tagged (detectSignatureSection js tagged))"


section \<open>Pattern matcher (layoutDetection.ts)\<close>

text \<open>
  The object returned by \<^verbatim>\<open>findPatternInSections\<close>. \<open>match = None\<close> is \<^verbatim>\<open>null\<close>;
  \<open>sectionType = None\<close> is an absent property.
\<close>

record SearchResult =
  position :: rat
  match :: "string option"
  confidence :: int
  sectionType :: "string option"

text \<open>
  \<^verbatim>\<open>Array.prototype.indexOf\<close>: the first index holding the element, or \<open>-1\<close>. The source
  compares objects by identity, the model compares source and flags; for the pattern the
  loop stops at the two agree, since an equal pattern at an earlier index would have
  stopped the loop there.
\<close>

definition indexOf :: "'a list \<Rightarrow> 'a \<Rightarrow> int" where
  "indexOf xs x =
     (case find (\<lambda>i. xs ! i = x) [0..<length xs] of Some i \<Rightarrow> int i | None \<Rightarrow> - 1)"

definition midpoint :: "DocumentSection \<Rightarrow> rat" where
  "midpoint s = (startPercentage s + endPercentage s) / 2"

text \<open>
  The inner loop \<^verbatim>\<open>for (const pattern of patterns)\<close> over one text: the first pattern, in
  list order, whose first group is a non-empty string, with \<^verbatim>\<open>patterns.indexOf(pattern)\<close>.
  \<open>rest\<close> is what remains to iterate.
\<close>

fun tryPatterns :: "Runtime \<Rightarrow> RegExp list \<Rightarrow> RegExp list \<Rightarrow> string \<Rightarrow> (string \<times> int) option" where
  "tryPatterns js patterns [] c = None"
| "tryPatterns js patterns (p # rest) c =
     (case capture js p 1 c of
        Some m \<Rightarrow> Some (m, indexOf patterns p)
      | None \<Rightarrow> tryPatterns js patterns rest c)"

text \<open>
  The outer loop \<^verbatim>\<open>for (const section of ...)\<close>, which the source writes five times with
  different constants: base confidence, decay per pattern index and section type.
\<close>

fun scanSections ::
    "Runtime \<Rightarrow> RegExp list \<Rightarrow> int \<Rightarrow> int \<Rightarrow> string option \<Rightarrow> DocumentSection list
       \<Rightarrow> SearchResult option" where
  "scanSections js patterns base decay ty [] = None"
| "scanSections js patterns base decay ty (s # rest) =
     (case tryPatterns js patterns patterns (content s) of
        Some (m, k) \<Rightarrow>
          Some \<lparr> position = midpoint s, match = Some m,
                 confidence = base - k * decay, sectionType = ty \<rparr>
      | None \<Rightarrow> scanSections js patterns base decay ty rest)"

definition findPatternInSections ::
    "Runtime \<Rightarrow> DocumentSection list \<Rightarrow> RegExp list \<Rightarrow> SearchResult" where
  "findPatternInSections js sections patterns =
     (case (case find isCustomerInfoSection sections of
              None \<Rightarrow> None
            | Some customerInfoSection \<Rightarrow>
                scanSections js patterns 95 5 (Some ''customerInfo'') [customerInfoSection]) of
        Some r \<Rightarrow> r
      | None \<Rightarrow>
     (case scanSections js patterns 90 5 (Some ''top'')
             (filter (\<lambda>s. endPercentage s \<le> 30 \<and> \<not> isSignatureSection s) sections) of
        Some r \<Rightarrow> r
      | None \<Rightarrow>
     (case scanSections js patterns 80 5 (Some ''middle'')
             (filter (\<lambda>s. startPercentage s > 30 \<and> endPercentage s < 70 \<and> \<not> isSignatureSection s)
                sections) of
        Some r \<Rightarrow> r
      | None \<Rightarrow>
     (case scanSections js patterns 75 7 None
             (filter (\<lambda>s. \<not> isSignatureSection s) sections) of
        Some r \<Rightarrow> r
      | None \<Rightarrow>
     (case scanSections js patterns 30 5 (Some ''signature'')
             (filter isSignatureSection sections) of
        Some r \<Rightarrow> r
      | None \<Rightarrow>
     (case tryPatterns js patterns patterns (joinWith newline (map content sections)) of
        Some (m, k) \<Rightarrow>
          \<lparr> position = 50, match = Some m, confidence = 45 - k * 5, sectionType = None \<rparr>
      | None \<Rightarrow>
          \<lparr> position = - 1, match = None, confidence = 0, sectionType = None \<rparr>))))))"

section \<open>Layout detector (layoutDetection.ts)\<close>

record LayoutSection =
  expectedLocation :: rat
  tolerance :: rat

record FormLayout =
  name :: string
  description :: string
  nameSection :: LayoutSection
  amountSection :: LayoutSection
  ibanSection :: LayoutSection
  serviceNumberSection :: LayoutSection







section \<open>Pattern registry and learning loop (TrainingService.ts)\<close>

text \<open>
  The three tables of the Dexie database and the fields of the service object are one
  record. A table is the list of its rows in primary-key order; \<open>add\<close> gives a row the next
  key of the auto-increment key generator. A field type is the string the source passes
  around. The database is taken to be available: its operations do not throw. Every
  \<^verbatim>\<open>new Date().toISOString()\<close> is the parameter \<open>now\<close>; nothing reads it back.
  The fields of the three row types carry a prefix where they would share a name.
\<close>

record TrainingExample =
  te_id :: nat
  te_fieldType :: string
  te_pattern :: string
  te_value :: string
  te_context :: "string option"
  te_confidence :: rat
  te_timestamp :: string

record ExtractionPattern =
  idKey :: nat
  fieldType :: string
  patternRegex :: string
  priority :: int
  successRate :: rat
  usageCount :: int
  timestamp :: string

record CorrectionRecord =
  cr_id :: nat
  cr_fieldType :: string
  cr_originalValue :: string
  cr_correctedValue :: string
  cr_documentId :: string
  cr_confidence :: rat
  cr_timestamp :: string

record TrainingService =
  initialized :: bool
  fuseSearch :: "TrainingExample list option"
  patternRegistry :: "string \<rightharpoonup> RegExp list"
  trainingExamples :: "TrainingExample list"
  extractionPatterns :: "ExtractionPattern list"
  correctionHistory :: "CorrectionRecord list"

text \<open>\<^verbatim>\<open>private learningRate: number = 0.1\<close>, which nothing assigns.\<close>

definition learningRate :: rat where
  "learningRate = 1 / 10"

definition nextKey :: "nat list \<Rightarrow> nat" where
  "nextKey ks = Suc (fold max ks 0)"

definition addPattern ::
    "string \<Rightarrow> string \<Rightarrow> int \<Rightarrow> rat \<Rightarrow> int \<Rightarrow> string \<Rightarrow> ExtractionPattern list
       \<Rightarrow> ExtractionPattern list" where
  "addPattern ft rx pr sr uc ts tbl =
     tbl @ [\<lparr> idKey = nextKey (map idKey tbl), fieldType = ft, patternRegex = rx,
              priority = pr, successRate = sr, usageCount = uc, timestamp = ts \<rparr>]"

definition addExample ::
    "string \<Rightarrow> string \<Rightarrow> string \<Rightarrow> string option \<Rightarrow> rat \<Rightarrow> string \<Rightarrow> TrainingExample list
       \<Rightarrow> TrainingExample list" where
  "addExample ft pat v ctx conf ts tbl =
     tbl @ [\<lparr> te_id = nextKey (map te_id tbl), te_fieldType = ft, te_pattern = pat,
              te_value = v, te_context = ctx, te_confidence = conf, te_timestamp = ts \<rparr>]"

definition addCorrection ::
    "string \<Rightarrow> string \<Rightarrow> string \<Rightarrow> string \<Rightarrow> rat \<Rightarrow> string \<Rightarrow> CorrectionRecord list
       \<Rightarrow> CorrectionRecord list" where
  "addCorrection ft orig corr doc conf ts tbl =
     tbl @ [\<lparr> cr_id = nextKey (map cr_id tbl), cr_fieldType = ft, cr_originalValue = orig,
              cr_correctedValue = corr, cr_documentId = doc, cr_confidence = conf,
              cr_timestamp = ts \<rparr>]"

text \<open>The currency alternatives of the amount patterns; the two non-Latin ones as escapes.\<close>

definition currencyGroup :: string where
  "currencyGroup = bsl ''(?:SAR|SR|%u0631.%u0633.|%uFDFC)''"

definition seedExamples :: "string \<Rightarrow> TrainingExample list \<Rightarrow> TrainingExample list" where
  "seedExamples ts tbl =
     (addExample ''customerServiceNumber'' ''service number:'' ''FTTH123456'' None 90 ts
       (addExample ''ibanNumber'' ''iban:'' ''SA0123456789012345678901'' None 95 ts
         (addExample ''refundAmount'' ''refund amount:'' ''500.00'' None 95 ts
           (addExample ''customerName'' ''customer name:'' ''John Smith'' None 90 ts tbl))))"

definition seedPatterns :: "string \<Rightarrow> ExtractionPattern list \<Rightarrow> ExtractionPattern list" where
  "seedPatterns ts tbl =
     (addPattern ''customerServiceNumber'' (bsl ''service%s*number%s*:%s*(FTTH%d+)'') 1 94 8 ts
       (addPattern ''ibanNumber'' (bsl ''iban%s*:%s*(SA%d{22})'') 1 98 14 ts
         (addPattern ''refundAmount''
            (bsl ''refund%s*amount%s*:%s*'' @ currencyGroup @ bsl ''?%s*([0-9,.]+)'') 1 92 12 ts
           (addPattern ''customerName'' (bsl ''name%s*:%s*([A-Za-z%s.'-]+)'') 2 90 15 ts
             (addPattern ''customerName'' (bsl ''customer%s*name%s*:%s*([A-Za-z%s.'-]+)'')
                1 95 10 ts tbl)))))"

definition newService :: TrainingService where
  "newService =
     \<lparr> initialized = False, fuseSearch = None, patternRegistry = Map.empty,
       trainingExamples = [], extractionPatterns = [],
       correctionHistory = [] \<rparr>"

definition fieldTypes :: "string list" where
  "fieldTypes = [''customerName'', ''refundAmount'', ''ibanNumber'', ''customerServiceNumber'']"

definition initializeFuseSearch :: "TrainingService \<Rightarrow> TrainingService" where
  "initializeFuseSearch st = st\<lparr> fuseSearch := Some (trainingExamples st) \<rparr>"

text \<open>
  \<^verbatim>\<open>loadPatternRegistry\<close>: the rows ordered by priority, then, for each field type, its rows
  sorted by priority (JavaScript's sort is stable, as \<open>sort_key\<close> is), compiled with the
  flag \<open>i\<close>; a source that does not compile is left out.
\<close>

definition compilePatterns :: "Runtime \<Rightarrow> ExtractionPattern list \<Rightarrow> RegExp list" where
  "compilePatterns js ps =
     map (\<lambda>p. RegExp (patternRegex p) ''i'') (filter (\<lambda>p. compiles js (patternRegex p)) ps)"

definition loadPatternRegistry :: "Runtime \<Rightarrow> TrainingService \<Rightarrow> TrainingService" where
  "loadPatternRegistry js st =
     (let patterns = sort_key priority (extractionPatterns st)
      in st\<lparr> patternRegistry :=
               fold (\<lambda>ft reg.
                       reg(ft \<mapsto> compilePatterns js
                                    (sort_key priority (filter (\<lambda>p. fieldType p = ft) patterns))))
                    fieldTypes Map.empty \<rparr>)"

definition initialize :: "Runtime \<Rightarrow> string \<Rightarrow> TrainingService \<Rightarrow> TrainingService" where
  "initialize js now st =
     (if initialized st then st
      else
        let exampleCount = length (trainingExamples st);
            patternCount = length (extractionPatterns st);
            st1 = (if exampleCount = 0
                   then st\<lparr> trainingExamples := seedExamples now (trainingExamples st) \<rparr>
                   else st);
            st2 = (if patternCount = 0
                   then st1\<lparr> extractionPatterns := seedPatterns now (extractionPatterns st1) \<rparr>
                   else st1);
            st3 = initializeFuseSearch st2;
            st4 = loadPatternRegistry js st3
        in st4\<lparr> initialized := True \<rparr>)"

definition getPatterns :: "TrainingService \<Rightarrow> string \<Rightarrow> RegExp list" where
  "getPatterns st ft =
     (if \<not> initialized st then []
      else (case patternRegistry st ft of None \<Rightarrow> [] | Some ps \<Rightarrow> ps))"

text \<open>The \<^verbatim>\<open>switch (fieldType)\<close> of \<^verbatim>\<open>learnNewPattern\<close>; no case leaves the empty string.\<close>

definition synthesize :: "string \<Rightarrow> string \<Rightarrow> string" where
  "synthesize ft patternWord =
     (if ft = ''customerName'' then patternWord @ bsl ''%s*([A-Za-z%s.'-]+)''
      else if ft = ''refundAmount''
        then patternWord @ bsl ''%s*'' @ currencyGroup @ bsl ''?%s*([0-9,.]+)''
      else if ft = ''ibanNumber'' then patternWord @ bsl ''%s*(SA%d{22})''
      else if ft = ''customerServiceNumber'' then patternWord @ bsl ''%s*(FTTH%d+)''
      else [])"

text \<open>The body of the loop \<^verbatim>\<open>for (const line of lines)\<close> of \<^verbatim>\<open>learnNewPattern\<close>.\<close>

definition learnFromLine ::
    "Runtime \<Rightarrow> string \<Rightarrow> string \<Rightarrow> string \<Rightarrow> string \<Rightarrow> TrainingService \<Rightarrow> TrainingService" where
  "learnFromLine js now ft correctValue line st =
     (case strIndexOf (toLowerCase line) (toLowerCase correctValue) of
        None \<Rightarrow> st
      | Some ix \<Rightarrow>
          let beforeValue = take ix line
          in if trim beforeValue \<noteq> []
             then
               let patternWord = escapeRegExp (trim beforeValue);
                   patternRegex' = synthesize ft patternWord
               in if patternRegex' \<noteq> []
                  then
                    let existingPatterns =
                          length (filter (\<lambda>p. patternRegex p = patternRegex') (extractionPatterns st))
                    in if existingPatterns = 0
                       then loadPatternRegistry js
                              (st\<lparr> extractionPatterns :=
                                      addPattern ft patternRegex' 5 60 1 now (extractionPatterns st) \<rparr>)
                       else st
                  else st
             else st)"

definition learnNewPattern ::
    "Runtime \<Rightarrow> string \<Rightarrow> string \<Rightarrow> string \<Rightarrow> string \<Rightarrow> TrainingService \<Rightarrow> TrainingService" where
  "learnNewPattern js now ft context' correctValue st =
     fold (learnFromLine js now ft correctValue) (splitOn newline context') st"

text \<open>\<^verbatim>\<open>if (context)\<close>: the optional string is present and not empty.\<close>

definition truthy :: "string option \<Rightarrow> bool" where
  "truthy c = (case c of None \<Rightarrow> False | Some s \<Rightarrow> s \<noteq> [])"

definition addTrainingExample ::
    "Runtime \<Rightarrow> string \<Rightarrow> string \<Rightarrow> string \<Rightarrow> string \<Rightarrow> string option \<Rightarrow> rat
       \<Rightarrow> TrainingService \<Rightarrow> TrainingService" where
  "addTrainingExample js now ft pat v ctx conf st =
     (let st1 = initialize js now st;
          st2 = st1\<lparr> trainingExamples := addExample ft pat v ctx conf now (trainingExamples st1) \<rparr>;
          st3 = initializeFuseSearch st2
      in if truthy ctx then learnNewPattern js now ft (the ctx) v st3 else st3)"

text \<open>\<^verbatim>\<open>db.extractionPatterns.update(id, changes)\<close>: the row with that key gets the changes.\<close>

definition updatePattern ::
    "nat \<Rightarrow> rat \<Rightarrow> int \<Rightarrow> string \<Rightarrow> ExtractionPattern list \<Rightarrow> ExtractionPattern list" where
  "updatePattern k sr uc ts tbl =
     map (\<lambda>q. if idKey q = k then q\<lparr> successRate := sr, usageCount := uc, timestamp := ts \<rparr> else q)
       tbl"

text \<open>The body of the loop of \<^verbatim>\<open>updatePatternSuccessRates\<close>, \<open>p\<close> a row as it was read.\<close>

definition updateRate ::
    "Runtime \<Rightarrow> string \<Rightarrow> string \<Rightarrow> string \<Rightarrow> ExtractionPattern \<Rightarrow> TrainingService
       \<Rightarrow> TrainingService" where
  "updateRate js now originalValue correctedValue p st =
     (if compiles js (patternRegex p)
      then (case exec js (RegExp (patternRegex p) ''i'') originalValue of
              None \<Rightarrow> st
            | Some m \<Rightarrow>
                let newSuccessRate =
                      successRate p * (1 - learningRate) +
                      (if originalValue = correctedValue then 100 else 0) * learningRate
                in st\<lparr> extractionPatterns :=
                         updatePattern (idKey p) newSuccessRate (usageCount p + 1) now
                           (extractionPatterns st) \<rparr>)
      else st)"

definition updatePatternSuccessRates ::
    "Runtime \<Rightarrow> string \<Rightarrow> string \<Rightarrow> string \<Rightarrow> string \<Rightarrow> TrainingService \<Rightarrow> TrainingService" where
  "updatePatternSuccessRates js now ft originalValue correctedValue st =
     (let patterns = filter (\<lambda>p. fieldType p = ft) (extractionPatterns st)
      in loadPatternRegistry js
           (fold (updateRate js now originalValue correctedValue) patterns st))"

definition recordCorrection ::
    "Runtime \<Rightarrow> string \<Rightarrow> string \<Rightarrow> string \<Rightarrow> string \<Rightarrow> string \<Rightarrow> string option
       \<Rightarrow> TrainingService \<Rightarrow> TrainingService" where
  "recordCorrection js now ft originalValue correctedValue documentId ctx st =
     (let st1 = initialize js now st;
          st2 = st1\<lparr> correctionHistory :=
                       addCorrection ft originalValue correctedValue documentId 100 now
                         (correctionHistory st1) \<rparr>;
          st3 = addTrainingExample js now ft ft correctedValue ctx 90 st2;
          st4 = (if truthy ctx then learnNewPattern js now ft (the ctx) correctedValue st3 else st3)
      in updatePatternSuccessRates js now ft originalValue correctedValue st4)"

section \<open>Field extractors (extractors.ts)\<close>

text \<open>
  The object every extractor returns: \<^verbatim>\<open>{ value, confidence, position }\<close>. The fields carry
  the prefix \<open>field\<close>: \<open>confidence\<close> and \<open>position\<close> are taken by the matcher's result.
  The extractors read the training service through \<^verbatim>\<open>getPatterns\<close> only, so the service is
  an argument.
\<close>

record FieldResult =
  fieldValue :: string
  fieldConfidence :: int
  fieldPosition :: rat

definition defaultNamePatterns :: "RegExp list" where
  "defaultNamePatterns =
     [RegExp (bsl ''customer information[%s%S]{0,50}name%s*[:%.%s]*([A-Za-z%s.'-]+)'') ''i'',
      RegExp (bsl ''MR%s*%.%s*([A-Za-z%s.'-]+)'') ''i'',
      RegExp (bsl ''(MR%s*%.)?%s*([A-Za-z%s.'-]+)%s+(?:Al|El)%s+([A-Za-z%s.'-]+)'') ''i'',
      RegExp (bsl ''customer[%s%S]{0,50}name%s*[:%.%s]*([A-Za-z%s.'-]+)'') ''i'',
      RegExp (bsl ''customer%s*name%s*:%s*([A-Za-z%s.'-]+)'') ''i'',
      RegExp (bsl ''name%s*:%s*([A-Za-z%s.'-]+)'') ''i'',
      RegExp (bsl ''client%s*:%s*([A-Za-z%s.'-]+)'') ''i'',
      RegExp (bsl ''applicant%s*:%s*([A-Za-z%s.'-]+)'') ''i'',
      RegExp (bsl ''recipient%s*:%s*([A-Za-z%s.'-]+)'') ''i'',
      RegExp (bsl ''account%s*holder%s*:%s*([A-Za-z%s.'-]+)'') ''i'']"

definition titlePattern :: RegExp where
  "titlePattern =
     RegExp (bsl ''%b(MR%.|DR%.|MS%.|MRS%.)%s*([A-Za-z%s.'-]+(?:%s+(?:Al|El)%s+[A-Za-z%s.'-]+)?)%b'')
       ''i''"

definition treasuryNamePattern :: RegExp where
  "treasuryNamePattern =
     RegExp (bsl ''name[%s%u0600-%u06FF]*(?:%s*[:%.%s]%s*)((?:[A-Za-z%s.'-]+%s*)+)'') ''i''"

definition nameShape :: RegExp where
  "nameShape = RegExp (bsl ''^[A-Z][a-z]+(%s[A-Z][a-z]+)+$'') []"

definition alElMarker :: RegExp where
  "alElMarker = RegExp (bsl ''%b(Al|El)%b'') ''i''"

definition nameRegex :: RegExp where
  "nameRegex = RegExp (bsl ''([A-Z][a-z]+(?:%s[A-Z][a-z]+)+(?:%s(?:Al|El)%s[A-Z][a-z]+)?)'') []"

text \<open>\<^verbatim>\<open>for (const pattern of patterns)\<close> returning the first non-empty first group.\<close>

fun firstCapture :: "Runtime \<Rightarrow> RegExp list \<Rightarrow> string \<Rightarrow> string option" where
  "firstCapture js [] c = None"
| "firstCapture js (p # rest) c =
     (case capture js p 1 c of Some m \<Rightarrow> Some m | None \<Rightarrow> firstCapture js rest c)"

definition found :: "string \<Rightarrow> int \<Rightarrow> DocumentSection \<Rightarrow> FieldResult" where
  "found m conf s = \<lparr> fieldValue = trim m, fieldConfidence = conf, fieldPosition = midpoint s \<rparr>"

text \<open>The block \<^verbatim>\<open>if (customerInfoSection) { ... }\<close> of \<^verbatim>\<open>extractCustomerName\<close>.\<close>

definition nameInCustomerInfo :: "Runtime \<Rightarrow> RegExp list \<Rightarrow> DocumentSection \<Rightarrow> FieldResult option" where
  "nameInCustomerInfo js namePatterns s =
     (case capture js treasuryNamePattern 1 (content s) of
        Some m \<Rightarrow> Some (found m 98 s)
      | None \<Rightarrow>
         (case capture js titlePattern 2 (content s) of
            Some m \<Rightarrow> Some (found m 98 s)
          | None \<Rightarrow>
             (case firstCapture js namePatterns (content s) of
                Some m \<Rightarrow> Some (found m 95 s)
              | None \<Rightarrow> None)))"

text \<open>The two loops over top sections, which differ in their two confidences.\<close>

fun nameInTopSections ::
    "Runtime \<Rightarrow> RegExp list \<Rightarrow> int \<Rightarrow> int \<Rightarrow> DocumentSection list \<Rightarrow> FieldResult option" where
  "nameInTopSections js namePatterns titleConf patternConf [] = None"
| "nameInTopSections js namePatterns titleConf patternConf (s # rest) =
     (case capture js titlePattern 2 (content s) of
        Some m \<Rightarrow> Some (found m titleConf s)
      | None \<Rightarrow>
         (case firstCapture js namePatterns (content s) of
            Some m \<Rightarrow> Some (found m patternConf s)
          | None \<Rightarrow> nameInTopSections js namePatterns titleConf patternConf rest))"

text \<open>The confidence adjustments after \<^verbatim>\<open>findPatternInSections\<close> found a name.\<close>

definition adjustNameConfidence :: "Runtime \<Rightarrow> SearchResult \<Rightarrow> string \<Rightarrow> int" where
  "adjustNameConfidence js result nm =
     (let c0 = confidence result;
          c1 = (if sectionType result = Some ''customerInfo'' then c0 + 15
                else if sectionType result = Some ''top'' then c0 + 10
                else if sectionType result = Some ''signature'' then c0 - 50
                else c0);
          c2 = (if length nm > 3 \<and> length nm < 50 then c1 + 5 else c1);
          c3 = (if test js nameShape nm then c2 + 5 else c2);
          c4 = (if test js alElMarker nm then c3 + 8 else c3);
          c5 = (if sectionType result = Some ''signature'' then min c4 40 else c4)
      in min c5 100)"

text \<open>The last loop: any run of capitalised words in a section that is not a signature.\<close>

fun nameFallback :: "Runtime \<Rightarrow> DocumentSection list \<Rightarrow> FieldResult option" where
  "nameFallback js [] = None"
| "nameFallback js (s # rest) =
     (case capture js nameRegex 1 (content s) of
        Some m \<Rightarrow>
          Some \<lparr> fieldValue = trim m,
                 fieldConfidence = (if isCustomerInfoSection s then 80
                                    else if endPercentage s \<le> 30 then 70 else 60),
                 fieldPosition = midpoint s \<rparr>
      | None \<Rightarrow> nameFallback js rest)"

definition extractCustomerName ::
    "Runtime \<Rightarrow> TrainingService \<Rightarrow> DocumentSection list \<Rightarrow> FieldResult" where
  "extractCustomerName js svc sections =
     (let trainedPatterns = getPatterns svc ''customerName'';
          namePatterns = trainedPatterns @ defaultNamePatterns;
          customerInfoSection = find isCustomerInfoSection sections;
          topSections = filter (\<lambda>s. endPercentage s \<le> 30 \<and> \<not> isSignatureSection s) sections;
          topSectionsWithNameField =
            filter (\<lambda>s. test js (RegExp (bsl ''name%s*[:%.%s]'') ''i'') (content s) \<or>
                        test js (RegExp (bsl ''MR%s*%.'') ''i'') (content s) \<or>
                        test js (RegExp ''customer'' ''i'') (content s)) topSections
      in case (case customerInfoSection of
                 None \<Rightarrow> None
               | Some c \<Rightarrow> nameInCustomerInfo js namePatterns c) of
           Some r \<Rightarrow> r
         | None \<Rightarrow>
        (case nameInTopSections js namePatterns 95 90 topSectionsWithNameField of
           Some r \<Rightarrow> r
         | None \<Rightarrow>
        (case nameInTopSections js namePatterns 85 80 topSections of
           Some r \<Rightarrow> r
         | None \<Rightarrow>
        (let result = findPatternInSections js sections namePatterns
         in if truthy (match result)
            then (let nm = trim (the (match result))
                  in \<lparr> fieldValue = nm,
                       fieldConfidence = adjustNameConfidence js result nm,
                       fieldPosition = position result \<rparr>)
            else (case nameFallback js (filter (\<lambda>s. \<not> isSignatureSection s) sections) of
                    Some r \<Rightarrow> r
                  | None \<Rightarrow>
                      \<lparr> fieldValue = ''Unknown'', fieldConfidence = 0, fieldPosition = - 1 \<rparr>)))))"

definition defaultAmountPatterns :: "RegExp list" where
  "defaultAmountPatterns =
     [RegExp (bsl ''refund%s*amount%s*:%s*'' @ currencyGroup @ bsl ''?%s*([0-9,.]+)'') ''i'',
      RegExp (bsl ''amount%s*:%s*'' @ currencyGroup @ bsl ''?%s*([0-9,.]+)'') ''i'',
      RegExp (bsl ''total%s*:%s*'' @ currencyGroup @ bsl ''?%s*([0-9,.]+)'') ''i'',
      RegExp (bsl ''payment%s*amount%s*:%s*'' @ currencyGroup @ bsl ''?%s*([0-9,.]+)'') ''i'',
      RegExp (currencyGroup @ bsl ''%s*([0-9,.]+)'') ''i'',
      RegExp (bsl ''([0-9,.]+)%s*'' @ currencyGroup) ''i'']"

definition hasCurrencyContexts :: "string \<Rightarrow> bool" where
  "hasCurrencyContexts c =
     (strIncludes (toLowerCase c) ''amount'' \<or> strIncludes (toLowerCase c) ''payment'' \<or>
      strIncludes (toLowerCase c) ''total'' \<or> strIncludes (toLowerCase c) ''sum'' \<or>
      strIncludes (toLowerCase c) ''sar'' \<or> strIncludes (toLowerCase c) ''refund'')"

fun amountFallback :: "Runtime \<Rightarrow> DocumentSection list \<Rightarrow> FieldResult option" where
  "amountFallback js [] = None"
| "amountFallback js (s # rest) =
     (case capture js (RegExp (bsl ''([0-9]+(%.[0-9]{2})?)'') []) 1 (content s) of
        Some m \<Rightarrow>
          Some \<lparr> fieldValue = m,
                 fieldConfidence = (if hasCurrencyContexts (content s) then 60 else 40),
                 fieldPosition = midpoint s \<rparr>
      | None \<Rightarrow> amountFallback js rest)"

definition extractRefundAmount ::
    "Runtime \<Rightarrow> TrainingService \<Rightarrow> DocumentSection list \<Rightarrow> FieldResult" where
  "extractRefundAmount js svc sections =
     (let trainedPatterns = getPatterns svc ''refundAmount'';
          amountPatterns = trainedPatterns @ defaultAmountPatterns;
          result = findPatternInSections js sections amountPatterns
      in if truthy (match result)
         then
           (let amount = trim (the (match result));
                c0 = confidence result;
                sectionWithAmount = find (\<lambda>s. strIncludes (content s) amount) sections;
                c1 = (case sectionWithAmount of
                        None \<Rightarrow> c0
                      | Some s \<Rightarrow> if strIncludes (toLowerCase (content s)) ''refund''
                                  then c0 + 5 else c0);
                c2 = (if test js (RegExp (bsl ''^[0-9]+(%.[0-9]{2})?$'') []) amount
                      then c1 + 5 else c1)
            in \<lparr> fieldValue = amount, fieldConfidence = min c2 100,
                 fieldPosition = position result \<rparr>)
         else (case amountFallback js sections of
                 Some r \<Rightarrow> r
               | None \<Rightarrow> \<lparr> fieldValue = ''0.00'', fieldConfidence = 0, fieldPosition = - 1 \<rparr>))"

definition defaultIbanPatterns :: "RegExp list" where
  "defaultIbanPatterns =
     [RegExp (bsl ''iban%s*:%s*(SA%d{22})'') ''i'',
      RegExp (bsl ''iban%s*number%s*:%s*(SA%d{22})'') ''i'',
      RegExp (bsl ''bank%s*account%s*:%s*(SA%d{22})'') ''i'',
      RegExp (bsl ''account%s*number%s*:%s*(SA%d{22})'') ''i'',
      RegExp (bsl ''(SA%d{22})'') ''i'']"

fun ibanFallback :: "Runtime \<Rightarrow> DocumentSection list \<Rightarrow> FieldResult option" where
  "ibanFallback js [] = None"
| "ibanFallback js (s # rest) =
     (case capture js (RegExp (bsl ''(SA%d{10,})'') ''i'') 1 (content s) of
        Some m \<Rightarrow> Some \<lparr> fieldValue = m, fieldConfidence = 60, fieldPosition = midpoint s \<rparr>
      | None \<Rightarrow> ibanFallback js rest)"

definition extractIBAN ::
    "Runtime \<Rightarrow> TrainingService \<Rightarrow> DocumentSection list \<Rightarrow> FieldResult" where
  "extractIBAN js svc sections =
     (let trainedPatterns = getPatterns svc ''ibanNumber'';
          ibanPatterns = trainedPatterns @ defaultIbanPatterns;
          result = findPatternInSections js sections ibanPatterns
      in if truthy (match result)
         then
           (let iban = trim (the (match result));
                c0 = confidence result;
                sectionWithIban = find (\<lambda>s. strIncludes (content s) iban) sections;
                c1 = (case sectionWithIban of
                        None \<Rightarrow> c0
                      | Some s \<Rightarrow> if strIncludes (toLowerCase (content s)) ''iban'' \<or>
                                     strIncludes (toLowerCase (content s)) ''bank''
                                  then c0 + 5 else c0);
                c2 = (if test js (RegExp (bsl ''^SA%d{22}$'') []) iban then c1 + 5 else c1)
            in \<lparr> fieldValue = iban, fieldConfidence = min c2 100,
                 fieldPosition = position result \<rparr>)
         else (case ibanFallback js sections of
                 Some r \<Rightarrow> r
               | None \<Rightarrow> \<lparr> fieldValue = ''Unknown'', fieldConfidence = 0, fieldPosition = - 1 \<rparr>))"

definition defaultServicePatterns :: "RegExp list" where
  "defaultServicePatterns =
     [RegExp (bsl ''customer information[%s%S]{0,100}(FTTH%d+)'') ''i'',
      RegExp (bsl ''service%s*number%s*:%s*(FTTH%d+)'') ''i'',
      RegExp (bsl ''customer%s*service%s*number%s*:%s*(FTTH%d+)'') ''i'',
      RegExp (bsl ''customer%s*id%s*:%s*(FTTH%d+)'') ''i'',
      RegExp (bsl ''reference%s*number%s*:%s*(FTTH%d+)'') ''i'',
      RegExp (bsl ''reference%s*:%s*(FTTH%d+)'') ''i'',
      RegExp (bsl ''(FTTH%d+)'') ''i'']"

fun serviceFallback :: "Runtime \<Rightarrow> DocumentSection list \<Rightarrow> FieldResult option" where
  "serviceFallback js [] = None"
| "serviceFallback js (s # rest) =
     (case capture js (RegExp (bsl ''(FTTH%d+)'') ''i'') 1 (content s) of
        Some m \<Rightarrow>
          Some \<lparr> fieldValue = m,
                 fieldConfidence = (if isCustomerInfoSection s then 85 else 70),
                 fieldPosition = midpoint s \<rparr>
      | None \<Rightarrow> serviceFallback js rest)"

definition extractServiceNumber ::
    "Runtime \<Rightarrow> TrainingService \<Rightarrow> DocumentSection list \<Rightarrow> FieldResult" where
  "extractServiceNumber js svc sections =
     (let trainedPatterns = getPatterns svc ''customerServiceNumber'';
          servicePatterns = trainedPatterns @ defaultServicePatterns;
          result = findPatternInSections js sections servicePatterns
      in if truthy (match result)
         then
           (let serviceNumber = trim (the (match result));
                c0 = confidence result;
                sectionWithService = find (\<lambda>s. strIncludes (content s) serviceNumber) sections;
                c1 = (case sectionWithService of
                        None \<Rightarrow> c0
                      | Some s \<Rightarrow> if strIncludes (toLowerCase (content s)) ''service'' \<or>
                                     strIncludes (toLowerCase (content s)) ''customer id''
                                  then c0 + 5 else c0);
                c2 = (if test js (RegExp (bsl ''^FTTH%d{3,9}$'') []) serviceNumber
                      then c1 + 5 else c1);
                c3 = (if sectionType result = Some ''customerInfo'' then c2 + 10 else c2)
            in \<lparr> fieldValue = serviceNumber, fieldConfidence = min c3 100,
                 fieldPosition = position result \<rparr>)
         else (case serviceFallback js sections of
                 Some r \<Rightarrow> r
               | None \<Rightarrow> \<lparr> fieldValue = ''Unknown'', fieldConfidence = 0, fieldPosition = - 1 \<rparr>))"

section \<open>The vocabulary of the properties\<close>

subsection \<open>Section tags\<close>

text \<open>What the two detectors look for in the text of one section.\<close>

definition customerHeuristic :: "Runtime \<Rightarrow> string \<Rightarrow> bool" where
  "customerHeuristic js c =
     (list_ex (\<lambda>p. test js p c) customerHeaderPatterns \<or>
      list_ex (\<lambda>k. test js k c) customerKeywords \<or>
      nameFieldTest js c)"

definition signatureHeuristic :: "Runtime \<Rightarrow> string \<Rightarrow> bool" where
  "signatureHeuristic js c =
     (list_ex (\<lambda>k. test js k c) signatureKeywords \<or> signatureLineTest js c)"

text \<open>
  The shape of what the divider returns for \<open>n\<close> sections: \<open>ci\<close> is the index it tags as
  customer-info and \<open>sg\<close> the index it tags as signature, or \<open>-1\<close>.
\<close>

definition dividedAs :: "Runtime \<Rightarrow> int \<Rightarrow> DocumentSection list \<Rightarrow> nat \<Rightarrow> int \<Rightarrow> bool" where
  "dividedAs js n secs ci sg =
     (length secs = nat n \<and>
      (\<forall>i<nat n. startPercentage (secs ! i) = (of_nat i / of_int n) * 100 \<and>
                 endPercentage (secs ! i) = (of_nat (i + 1) / of_int n) * 100 \<and>
                 isCustomerInfoSection (secs ! i) = (i = ci) \<and>
                 isSignatureSection (secs ! i) = (int i = sg)) \<and>
      ci < nat n \<and>
      (ci = 0 \<or> endPercentage (secs ! ci) \<le> 40 \<and> customerHeuristic js (content (secs ! ci))) \<and>
      ((\<forall>i<nat n. endPercentage (secs ! i) \<le> 40 \<longrightarrow> \<not> customerHeuristic js (content (secs ! i)))
         \<longrightarrow> ci = 0) \<and>
      (sg = - 1 \<or> 0 \<le> sg \<and> nat sg < nat n \<and> startPercentage (secs ! nat sg) \<ge> 50 \<and>
                   signatureHeuristic js (content (secs ! nat sg))) \<and>
      (sg = - 1 \<longrightarrow> (\<forall>i<nat n. startPercentage (secs ! i) \<ge> 50 \<longrightarrow>
                            \<not> signatureHeuristic js (content (secs ! i)))))"

subsection \<open>Bands of the pattern matcher\<close>

text \<open>
  \<open>noPattern js ps c\<close>: no pattern of the list has a non-empty first group on the text \<open>c\<close>.
  \<open>firstPattern js ps c k m\<close>: pattern \<open>k\<close> has one, \<open>m\<close>, and no pattern before it has.
  \<open>firstSection js ps band i\<close>: section \<open>i\<close> of the band is the first on which some pattern
  has such a group.
\<close>

definition noPattern :: "Runtime \<Rightarrow> RegExp list \<Rightarrow> string \<Rightarrow> bool" where
  "noPattern js ps c = list_all (\<lambda>p. capture js p 1 c = None) ps"

definition firstPattern :: "Runtime \<Rightarrow> RegExp list \<Rightarrow> string \<Rightarrow> nat \<Rightarrow> string \<Rightarrow> bool" where
  "firstPattern js ps c k m =
     (k < length ps \<and> capture js (ps ! k) 1 c = Some m \<and> noPattern js (take k ps) c)"

definition noSection :: "Runtime \<Rightarrow> RegExp list \<Rightarrow> DocumentSection list \<Rightarrow> bool" where
  "noSection js ps band = list_all (\<lambda>s. noPattern js ps (content s)) band"

definition firstSection :: "Runtime \<Rightarrow> RegExp list \<Rightarrow> DocumentSection list \<Rightarrow> nat \<Rightarrow> bool" where
  "firstSection js ps band i =
     (i < length band \<and> \<not> noPattern js ps (content (band ! i)) \<and> noSection js ps (take i band))"

text \<open>The five bands of sections in their order, as the specification tabulates them.\<close>

record Band =
  bandSections :: "DocumentSection list"
  bandBase :: int
  bandDecay :: int
  bandType :: "string option"

definition bands :: "DocumentSection list \<Rightarrow> Band list" where
  "bands sections =
     [\<lparr> bandSections = (case find isCustomerInfoSection sections of None \<Rightarrow> [] | Some s \<Rightarrow> [s]),
        bandBase = 95, bandDecay = 5, bandType = Some ''customerInfo'' \<rparr>,
      \<lparr> bandSections = filter (\<lambda>s. endPercentage s \<le> 30 \<and> \<not> isSignatureSection s) sections,
        bandBase = 90, bandDecay = 5, bandType = Some ''top'' \<rparr>,
      \<lparr> bandSections =
          filter (\<lambda>s. startPercentage s > 30 \<and> endPercentage s < 70 \<and> \<not> isSignatureSection s)
            sections,
        bandBase = 80, bandDecay = 5, bandType = Some ''middle'' \<rparr>,
      \<lparr> bandSections = filter (\<lambda>s. \<not> isSignatureSection s) sections,
        bandBase = 75, bandDecay = 7, bandType = None \<rparr>,
      \<lparr> bandSections = filter isSignatureSection sections,
        bandBase = 30, bandDecay = 5, bandType = Some ''signature'' \<rparr>]"

subsection \<open>Layout scores\<close>


subsection \<open>Learning\<close>

text \<open>
  The pattern one line of the context yields: the line holds the corrected value (letter
  case ignored), the text before it is not blank, and the field type is a known one.
\<close>

definition linePattern :: "string \<Rightarrow> string \<Rightarrow> string \<Rightarrow> string option" where
  "linePattern ft correctValue line =
     (case strIndexOf (toLowerCase line) (toLowerCase correctValue) of
        None \<Rightarrow> None
      | Some ix \<Rightarrow>
          if trim (take ix line) = [] then None
          else if synthesize ft (escapeRegExp (trim (take ix line))) = [] then None
          else Some (synthesize ft (escapeRegExp (trim (take ix line)))))"

definition storedRegexes :: "TrainingService \<Rightarrow> string set" where
  "storedRegexes st = patternRegex ` set (extractionPatterns st)"

subsection \<open>Success rates\<close>

definition matchesOriginal :: "Runtime \<Rightarrow> string \<Rightarrow> ExtractionPattern \<Rightarrow> bool" where
  "matchesOriginal js originalValue p =
     (compiles js (patternRegex p) \<and> test js (RegExp (patternRegex p) ''i'') originalValue)"

definition movingAverage :: "rat \<Rightarrow> bool \<Rightarrow> rat" where
  "movingAverage oldRate unchanged =
     oldRate * (1 - 1 / 10) + (if unchanged then 100 else 0) * (1 / 10)"

text \<open>What a correction does to one stored row.\<close>

definition rescored ::
    "Runtime \<Rightarrow> string \<Rightarrow> string \<Rightarrow> string \<Rightarrow> string \<Rightarrow> ExtractionPattern \<Rightarrow> ExtractionPattern" where
  "rescored js now ft originalValue correctedValue p =
     (if fieldType p = ft \<and> matchesOriginal js originalValue p
      then p\<lparr> successRate := movingAverage (successRate p) (originalValue = correctedValue),
              usageCount := usageCount p + 1, timestamp := now \<rparr>
      else p)"

text \<open>
  The service as \<^verbatim>\<open>recordCorrection\<close> has it when it calls
  \<^verbatim>\<open>updatePatternSuccessRates\<close>: initialised, the correction and the training example stored,
  the patterns of the context learned.
\<close>

definition correctionLearned ::
    "Runtime \<Rightarrow> string \<Rightarrow> string \<Rightarrow> string \<Rightarrow> string \<Rightarrow> string \<Rightarrow> string option
       \<Rightarrow> TrainingService \<Rightarrow> TrainingService" where
  "correctionLearned js now ft originalValue correctedValue documentId ctx st =
     (let st1 = initialize js now st;
          st2 = st1\<lparr> correctionHistory :=
                       addCorrection ft originalValue correctedValue documentId 100 now
                         (correctionHistory st1) \<rparr>;
          st3 = addTrainingExample js now ft ft correctedValue ctx 90 st2
      in if truthy ctx then learnNewPattern js now ft (the ctx) correctedValue st3 else st3)"

definition tableOk :: "ExtractionPattern list \<Rightarrow> bool" where
  "tableOk tbl = distinct (map idKey tbl)"

definition ratesOk :: "ExtractionPattern list \<Rightarrow> bool" where
  "ratesOk tbl = list_all (\<lambda>p. 0 \<le> successRate p \<and> successRate p \<le> 100) tbl"

subsection \<open>Names\<close>

text \<open>
  The label and title patterns \<^verbatim>\<open>extractCustomerName\<close> tries on the customer-info section,
  each with the group it reads, in the order it tries them.
\<close>

definition labelPatterns :: "TrainingService \<Rightarrow> (RegExp \<times> nat) list" where
  "labelPatterns svc =
     (treasuryNamePattern, 1) # (titlePattern, 2) #
     map (\<lambda>p. (p, 1)) (getPatterns svc ''customerName'' @ defaultNamePatterns)"

definition holdsLabelledName :: "Runtime \<Rightarrow> TrainingService \<Rightarrow> DocumentSection \<Rightarrow> bool" where
  "holdsLabelledName js svc c =
     list_ex (\<lambda>pk. capture js (fst pk) (snd pk) (content c) \<noteq> None) (labelPatterns svc)"

section \<open>Concrete documents\<close>

text \<open>
  To run the model on a document the engine has to be given. \<open>tableRuntime\<close> is an engine
  that knows finitely many results: each entry is what \<^verbatim>\<open>text.match(regex)\<close> returns in
  the host for that regular expression and text, and a pair that is not listed is a failed
  match. The tables below list every match among the regular expressions and texts that
  the runs on these documents reach. Every source compiles.
\<close>

definition tableRuntime :: "((RegExp \<times> string) \<times> string option list) list \<Rightarrow> Runtime" where
  "tableRuntime tbl = \<lparr> compiles = (\<lambda>src. True), exec = (\<lambda>r s. map_of tbl (r, s)) \<rparr>"

subsection \<open>A form with a customer line and a signature line\<close>

definition formLine0 :: string where
  "formLine0 = ''Customer Name: Ali''"

definition formLine3 :: string where
  "formLine3 = ''Signature: Bob, IBAN Number: SA0380000000608010167519''"

definition formDocument :: string where
  "formDocument = formLine0 @ [newline] @ ''Refund'' @ [newline] @ ''Bank'' @ [newline] @ formLine3"

definition formRuntime :: Runtime where
  "formRuntime = tableRuntime
     [((RegExp ''customer'' ''i'', formLine0), [Some ''Customer'']),
      ((RegExp (bsl ''name%s*[:%.%s]'') ''i'', formLine0), [Some ''Name:'']),
      ((RegExp ''Name'' ''i'', formLine0), [Some ''Name'']),
      ((treasuryNamePattern, formLine0), [Some ''Name: Ali'', Some ''Ali'']),
      ((defaultNamePatterns ! 3, formLine0), [Some ''Customer Name: Ali'', Some ''Ali'']),
      ((defaultNamePatterns ! 4, formLine0), [Some ''Customer Name: Ali'', Some ''Ali'']),
      ((defaultNamePatterns ! 5, formLine0), [Some ''Name: Ali'', Some ''Ali'']),
      ((RegExp (''Customer Name:'' @ bsl ''%s*([A-Za-z%s.'-]+)'') ''i'', formLine0),
         [Some ''Customer Name: Ali'', Some ''Ali'']),
      ((RegExp ''signature'' ''i'', formLine3), [Some ''Signature'']),
      ((RegExp ''sign'' ''i'', formLine3), [Some ''Sign'']),
      ((RegExp ''Sign'' ''i'', formLine3), [Some ''Sign'']),
      ((RegExp ''Signature:'' ''i'', formLine3), [Some ''Signature:'']),
      ((defaultIbanPatterns ! 1, formLine3),
         [Some ''IBAN Number: SA0380000000608010167519'', Some ''SA0380000000608010167519'']),
      ((defaultIbanPatterns ! 4, formLine3),
         [Some ''SA0380000000608010167519'', Some ''SA0380000000608010167519''])]"

definition formSections :: "DocumentSection list" where
  "formSections =
     [\<lparr> startPercentage = 0, endPercentage = 25, content = formLine0,
        isCustomerInfoSection = True, isSignatureSection = False \<rparr>,
      \<lparr> startPercentage = 25, endPercentage = 50, content = ''Refund'',
        isCustomerInfoSection = False, isSignatureSection = False \<rparr>,
      \<lparr> startPercentage = 50, endPercentage = 75, content = ''Bank'',
        isCustomerInfoSection = False, isSignatureSection = False \<rparr>,
      \<lparr> startPercentage = 75, endPercentage = 100, content = formLine3,
        isCustomerInfoSection = False, isSignatureSection = True \<rparr>]"

subsection \<open>A document whose only name stands in the office-use block\<close>

definition officeLine :: string where
  "officeLine = ''Office Use Only Name: Karim Abu Taha''"

definition officeDocument :: string where
  "officeDocument = ''Refund request'' @ replicate 9 newline @ officeLine"

definition officeRuntime :: Runtime where
  "officeRuntime = tableRuntime
     [((RegExp ''office use only'' ''i'', officeLine), [Some ''Office Use Only'']),
      ((RegExp ''office'' ''i'', officeLine), [Some ''Office'']),
      ((RegExp ''OFFICE USE ONLY'' ''i'', officeLine), [Some ''Office Use Only'']),
      ((RegExp ''Name'' ''i'', officeLine), [Some ''Name'']),
      ((RegExp (bsl ''name%s*[:%.%s]'') ''i'', officeLine), [Some ''Name:'']),
      ((defaultNamePatterns ! 5, officeLine),
         [Some ''Name: Karim Abu Taha'', Some ''Karim Abu Taha'']),
      ((treasuryNamePattern, officeLine),
         [Some ''Name: Karim Abu Taha'', Some ''Karim Abu Taha'']),
      ((nameShape, ''Karim Abu Taha''), [Some ''Karim Abu Taha'', Some '' Taha''])]"

definition officeSections :: "DocumentSection list" where
  "officeSections =
     [\<lparr> startPercentage = 0, endPercentage = 10, content = ''Refund request'',
        isCustomerInfoSection = True, isSignatureSection = False \<rparr>,
      \<lparr> startPercentage = 10, endPercentage = 20, content = [],
        isCustomerInfoSection = False, isSignatureSection = False \<rparr>,
      \<lparr> startPercentage = 20, endPercentage = 30, content = [],
        isCustomerInfoSection = False, isSignatureSection = False \<rparr>,
      \<lparr> startPercentage = 30, endPercentage = 40, content = [],
        isCustomerInfoSection = False, isSignatureSection = False \<rparr>,
      \<lparr> startPercentage = 40, endPercentage = 50, content = [],
        isCustomerInfoSection = False, isSignatureSection = False \<rparr>,
      \<lparr> startPercentage = 50, endPercentage = 60, content = [],
        isCustomerInfoSection = False, isSignatureSection = False \<rparr>,
      \<lparr> startPercentage = 60, endPercentage = 70, content = [],
        isCustomerInfoSection = False, isSignatureSection = False \<rparr>,
      \<lparr> startPercentage = 70, endPercentage = 80, content = [],
        isCustomerInfoSection = False, isSignatureSection = False \<rparr>,
      \<lparr> startPercentage = 80, endPercentage = 90, content = [],
        isCustomerInfoSection = False, isSignatureSection = False \<rparr>,
      \<lparr> startPercentage = 90, endPercentage = 100, content = officeLine,
        isCustomerInfoSection = False, isSignatureSection = True \<rparr>]"

subsection \<open>A service number that only the joined text shows\<close>

definition splitSections :: "DocumentSection list" where
  "splitSections =
     [\<lparr> startPercentage = 0, endPercentage = 50, content = ''Customer Information'',
        isCustomerInfoSection = True, isSignatureSection = False \<rparr>,
      \<lparr> startPercentage = 50, endPercentage = 100, content = ''FTTH00516134'',
        isCustomerInfoSection = False, isSignatureSection = False \<rparr>]"

definition splitRuntime :: Runtime where
  "splitRuntime = tableRuntime
     [((defaultServicePatterns ! 0, ''Customer Information'' @ [newline] @ ''FTTH00516134''),
         [Some (''Customer Information'' @ [newline] @ ''FTTH00516134''), Some ''FTTH00516134''])]"

subsection \<open>A seeded registry and two corrections\<close>

definition seededService :: TrainingService where
  "seededService = initialize formRuntime ''2025-01-01T00:00:00.000Z'' newService"

definition twoLineContext :: string where
  "twoLineContext = ''Name: John'' @ [newline] @ ''Client: John''"

definition nameColon :: string where
  "nameColon = ''Name:'' @ bsl ''%s*([A-Za-z%s.'-]+)''"

definition clientColon :: string where
  "clientColon = ''Client:'' @ bsl ''%s*([A-Za-z%s.'-]+)''"

text \<open>The seeded registry after a user stored \<open>nameColon\<close> under the field type of amounts.\<close>

definition crossService :: TrainingService where
  "crossService =
     seededService\<lparr> extractionPatterns :=
       addPattern ''refundAmount'' nameColon 3 60 0 ''2025-01-02T00:00:00.000Z''
         (extractionPatterns seededService) \<rparr>"

section \<open>Properties of the section divider\<close>


lemma find_index_range:
  "find P (filter Q [0..<n]) = Some i \<Longrightarrow> i < n \<and> Q i \<and> P i"
  by (auto simp: find_Some_iff dest: nth_mem)

lemma find_index_none:
  "find P (filter Q [0..<n]) = None \<Longrightarrow> i < n \<Longrightarrow> Q i \<Longrightarrow> \<not> P i"
  by (auto simp: find_None_iff)

lemma detectCustomerInfoSection_cases:
  "detectCustomerInfoSection js xs = 0 \<or>
   (0 \<le> detectCustomerInfoSection js xs \<and> nat (detectCustomerInfoSection js xs) < length xs \<and>
    endPercentage (xs ! nat (detectCustomerInfoSection js xs)) \<le> 40 \<and>
    customerHeuristic js (content (xs ! nat (detectCustomerInfoSection js xs))))"
  unfolding detectCustomerInfoSection_def Let_def customerHeuristic_def
  by (auto split: option.splits dest!: find_index_range)

lemma detectCustomerInfoSection_default:
  assumes "\<forall>i<length xs. endPercentage (xs ! i) \<le> 40 \<longrightarrow> \<not> customerHeuristic js (content (xs ! i))"
  shows "detectCustomerInfoSection js xs = 0"
  using assms unfolding detectCustomerInfoSection_def Let_def customerHeuristic_def
  by (auto split: option.splits dest!: find_index_range)

lemma detectSignatureSection_cases:
  "detectSignatureSection js xs = - 1 \<or>
   (0 \<le> detectSignatureSection js xs \<and> nat (detectSignatureSection js xs) < length xs \<and>
    startPercentage (xs ! nat (detectSignatureSection js xs)) \<ge> 50 \<and>
    signatureHeuristic js (content (xs ! nat (detectSignatureSection js xs))))"
  unfolding detectSignatureSection_def Let_def signatureHeuristic_def
  by (auto split: option.splits dest!: find_index_range)

lemma detectSignatureSection_none:
  assumes "detectSignatureSection js xs = - 1" "i < length xs" "startPercentage (xs ! i) \<ge> 50"
  shows "\<not> signatureHeuristic js (content (xs ! i))"
  using assms unfolding detectSignatureSection_def Let_def signatureHeuristic_def
  by (auto split: option.splits dest: find_index_none)


lemma markCustomerInfo_Inr:
  assumes "markCustomerInfo xs k = Inr ys"
  shows "length ys = length xs"
    and "i < length xs \<Longrightarrow> startPercentage (ys ! i) = startPercentage (xs ! i)"
    and "i < length xs \<Longrightarrow> endPercentage (ys ! i) = endPercentage (xs ! i)"
    and "i < length xs \<Longrightarrow> content (ys ! i) = content (xs ! i)"
    and "i < length xs \<Longrightarrow> isSignatureSection (ys ! i) = isSignatureSection (xs ! i)"
    and "i < length xs \<Longrightarrow>
           isCustomerInfoSection (ys ! i) = (isCustomerInfoSection (xs ! i) \<or> int i = k)"
  using assms unfolding markCustomerInfo_def
  by (auto split: if_splits simp: nth_list_update)

lemma markSignature_Inr:
  assumes "markSignature xs k = Inr ys"
  shows "length ys = length xs"
    and "i < length xs \<Longrightarrow> startPercentage (ys ! i) = startPercentage (xs ! i)"
    and "i < length xs \<Longrightarrow> endPercentage (ys ! i) = endPercentage (xs ! i)"
    and "i < length xs \<Longrightarrow> content (ys ! i) = content (xs ! i)"
    and "i < length xs \<Longrightarrow> isCustomerInfoSection (ys ! i) = isCustomerInfoSection (xs ! i)"
    and "i < length xs \<Longrightarrow>
           isSignatureSection (ys ! i) = (isSignatureSection (xs ! i) \<or> int i = k)"
  using assms unfolding markSignature_def
  by (auto split: if_splits simp: nth_list_update)

lemma sectionAt_fields:
  "startPercentage (sectionAt ls n i) = (of_nat i / of_int n) * 100"
  "endPercentage (sectionAt ls n i) = (of_nat (i + 1) / of_int n) * 100"
  "isCustomerInfoSection (sectionAt ls n i) = False"
  "isSignatureSection (sectionAt ls n i) = False"
  by (simp_all add: sectionAt_def Let_def)

lemma divide_structure:
  assumes n: "1 \<le> n"
  shows "\<exists>secs ci sg. divideDocumentIntoSections js doc n = Inr secs \<and> dividedAs js n secs ci sg"
proof -
  define base where "base = map (sectionAt (splitOn newline doc) n) [0..<nat n]"
  define d where "d = detectCustomerInfoSection js base"
  have len: "length base = nat n" by (simp add: base_def)
  have pos: "0 < nat n" using n by simp
  have drange: "0 \<le> d \<and> nat d < length base"
    using detectCustomerInfoSection_cases[of js base] len pos unfolding d_def by auto
  then obtain tagged where tagged: "markCustomerInfo base d = Inr tagged"
    unfolding markCustomerInfo_def by auto
  note T = markCustomerInfo_Inr[OF tagged]
  define sg where "sg = detectSignatureSection js tagged"
  have srange: "sg = - 1 \<or> 0 \<le> sg \<and> nat sg < length tagged \<and>
      startPercentage (tagged ! nat sg) \<ge> 50 \<and> signatureHeuristic js (content (tagged ! nat sg))"
    using detectSignatureSection_cases[of js tagged] unfolding sg_def by auto
  then obtain secs where secs: "markSignature tagged sg = Inr secs"
    unfolding markSignature_def by auto
  note S = markSignature_Inr[OF secs]
  have res: "divideDocumentIntoSections js doc n = Inr secs"
    unfolding divideDocumentIntoSections_def Let_def
    using tagged secs by (simp add: base_def[symmetric] d_def[symmetric] sg_def[symmetric])
  have l2: "length tagged = nat n" "length secs = nat n" using T(1) S(1) len by auto
  have fields: "\<forall>i<nat n. startPercentage (secs ! i) = (of_nat i / of_int n) * 100 \<and>
                      endPercentage (secs ! i) = (of_nat (i + 1) / of_int n) * 100 \<and>
                      isCustomerInfoSection (secs ! i) = (i = nat d) \<and>
                      isSignatureSection (secs ! i) = (int i = sg)"
  proof (intro allI impI)
    fix i assume i: "i < nat n"
    have b: "base ! i = sectionAt (splitOn newline doc) n i" using i by (simp add: base_def)
    have "isCustomerInfoSection (secs ! i) = (int i = d)"
      using i S(5)[of i] T(6)[of i] l2 len b by (simp add: sectionAt_fields)
    moreover have "isSignatureSection (secs ! i) = (int i = sg)"
      using i S(6)[of i] T(5)[of i] l2 len b by (simp add: sectionAt_fields)
    moreover have "startPercentage (secs ! i) = (of_nat i / of_int n) * 100"
      using i S(2)[of i] T(2)[of i] l2 len b by (simp add: sectionAt_fields)
    moreover have "endPercentage (secs ! i) = (of_nat (i + 1) / of_int n) * 100"
      using i S(3)[of i] T(3)[of i] l2 len b by (simp add: sectionAt_fields)
    ultimately show "startPercentage (secs ! i) = (of_nat i / of_int n) * 100 \<and>
                      endPercentage (secs ! i) = (of_nat (i + 1) / of_int n) * 100 \<and>
                      isCustomerInfoSection (secs ! i) = (i = nat d) \<and>
                      isSignatureSection (secs ! i) = (int i = sg)"
      using drange by auto
  qed
  have same: "\<And>i. i < nat n \<Longrightarrow> content (secs ! i) = content (base ! i) \<and>
      endPercentage (secs ! i) = endPercentage (base ! i)"
    using S(2,3,4) T(2,3,4) l2 len by simp
  have sameT: "\<And>i. i < nat n \<Longrightarrow> content (tagged ! i) = content (secs ! i) \<and>
      startPercentage (tagged ! i) = startPercentage (secs ! i)"
    using S(2,3,4) l2 len by simp
  have c1: "nat d = 0 \<or> endPercentage (secs ! nat d) \<le> 40 \<and>
              customerHeuristic js (content (secs ! nat d))"
    using detectCustomerInfoSection_cases[of js base] drange same[of "nat d"] len
    unfolding d_def by auto
  have c2: "(\<forall>i<nat n. endPercentage (secs ! i) \<le> 40 \<longrightarrow> \<not> customerHeuristic js (content (secs ! i)))
              \<longrightarrow> nat d = 0"
  proof
    assume a: "\<forall>i<nat n. endPercentage (secs ! i) \<le> 40 \<longrightarrow> \<not> customerHeuristic js (content (secs ! i))"
    have "\<forall>i<length base. endPercentage (base ! i) \<le> 40 \<longrightarrow> \<not> customerHeuristic js (content (base ! i))"
      using a same len by auto
    from detectCustomerInfoSection_default[OF this] show "nat d = 0" by (simp add: d_def)
  qed
  have s1: "sg = - 1 \<or> 0 \<le> sg \<and> nat sg < nat n \<and> startPercentage (secs ! nat sg) \<ge> 50 \<and>
                        signatureHeuristic js (content (secs ! nat sg))"
    using srange sameT[of "nat sg"] l2 by auto
  have s2: "sg = - 1 \<longrightarrow> (\<forall>i<nat n. startPercentage (secs ! i) \<ge> 50 \<longrightarrow>
                                 \<not> signatureHeuristic js (content (secs ! i)))"
  proof (intro impI allI)
    fix i assume "sg = - 1" "i < nat n" "50 \<le> startPercentage (secs ! i)"
    then show "\<not> signatureHeuristic js (content (secs ! i))"
      using detectSignatureSection_none[of js tagged i] sameT[of i] l2 by (simp add: sg_def)
  qed
  have dn: "nat d < nat n" using drange len by simp
  have "dividedAs js n secs (nat d) sg"
    unfolding dividedAs_def
    apply (intro conjI)
          apply (rule l2(2))
         apply (rule fields)
        apply (rule dn)
       apply (rule c1)
      apply (rule c2)
     apply (rule s1)
    apply (rule s2)
    done
  then show ?thesis using res by blast
qed

lemma dividedAsD:
  assumes "dividedAs js n secs ci sg"
  shows "length secs = nat n"
    and "\<forall>i<nat n. startPercentage (secs ! i) = (of_nat i / of_int n) * 100 \<and>
                 endPercentage (secs ! i) = (of_nat (i + 1) / of_int n) * 100 \<and>
                 isCustomerInfoSection (secs ! i) = (i = ci) \<and>
                 isSignatureSection (secs ! i) = (int i = sg)"
    and "ci < nat n"
    and "ci = 0 \<or> endPercentage (secs ! ci) \<le> 40 \<and> customerHeuristic js (content (secs ! ci))"
    and "(\<forall>i<nat n. endPercentage (secs ! i) \<le> 40 \<longrightarrow> \<not> customerHeuristic js (content (secs ! i)))
           \<longrightarrow> ci = 0"
    and "sg = - 1 \<or> 0 \<le> sg \<and> nat sg < nat n \<and> startPercentage (secs ! nat sg) \<ge> 50 \<and>
                   signatureHeuristic js (content (secs ! nat sg))"
    and "sg = - 1 \<longrightarrow> (\<forall>i<nat n. startPercentage (secs ! i) \<ge> 50 \<longrightarrow>
                            \<not> signatureHeuristic js (content (secs ! i)))"
proof -
  note a = assms[unfolded dividedAs_def]
  show "length secs = nat n" by (rule a[THEN conjunct1])
  show "\<forall>i<nat n. startPercentage (secs ! i) = (of_nat i / of_int n) * 100 \<and>
                 endPercentage (secs ! i) = (of_nat (i + 1) / of_int n) * 100 \<and>
                 isCustomerInfoSection (secs ! i) = (i = ci) \<and>
                 isSignatureSection (secs ! i) = (int i = sg)"
    by (rule a[THEN conjunct2, THEN conjunct1])
  show "ci < nat n" by (rule a[THEN conjunct2, THEN conjunct2, THEN conjunct1])
  show "ci = 0 \<or> endPercentage (secs ! ci) \<le> 40 \<and> customerHeuristic js (content (secs ! ci))"
    by (rule a[THEN conjunct2, THEN conjunct2, THEN conjunct2, THEN conjunct1])
  show "(\<forall>i<nat n. endPercentage (secs ! i) \<le> 40 \<longrightarrow> \<not> customerHeuristic js (content (secs ! i)))
           \<longrightarrow> ci = 0"
    by (rule a[THEN conjunct2, THEN conjunct2, THEN conjunct2, THEN conjunct2, THEN conjunct1])
  show "sg = - 1 \<or> 0 \<le> sg \<and> nat sg < nat n \<and> startPercentage (secs ! nat sg) \<ge> 50 \<and>
                   signatureHeuristic js (content (secs ! nat sg))"
    by (rule a[THEN conjunct2, THEN conjunct2, THEN conjunct2, THEN conjunct2, THEN conjunct2,
               THEN conjunct1])
  show "sg = - 1 \<longrightarrow> (\<forall>i<nat n. startPercentage (secs ! i) \<ge> 50 \<longrightarrow>
                            \<not> signatureHeuristic js (content (secs ! i)))"
    by (rule a[THEN conjunct2, THEN conjunct2, THEN conjunct2, THEN conjunct2, THEN conjunct2,
               THEN conjunct2])
qed


lemma divide_Inr_positive:
  assumes "divideDocumentIntoSections js doc n = Inr secs"
  shows "1 \<le> n"
proof (rule ccontr)
  assume "\<not> 1 \<le> n"
  then have z: "nat n = 0" by simp
  have "detectCustomerInfoSection js [] = 0"
    using detectCustomerInfoSection_cases[of js "[]"] by simp
  then have "divideDocumentIntoSections js doc n = Inl TypeError"
    by (simp add: divideDocumentIntoSections_def Let_def z markCustomerInfo_def)
  then show False using assms by simp
qed

lemma divide_form: "divideDocumentIntoSections formRuntime formDocument 4 = Inr formSections"
  by code_simp


text \<open>
  Claim C4. For every text and every section count of at least 1,
  \<^verbatim>\<open>divideDocumentIntoSections\<close> returns exactly that many sections, the first section
  starts at 0, the last one ends at 100, and every section ends where the next one starts,
  whatever the sections hold (the text is arbitrary, so some may be empty).
\<close>

theorem divide_covers_document:
  assumes "1 \<le> sectionCount"
  shows "\<exists>secs. divideDocumentIntoSections js doc sectionCount = Inr secs \<and>
           int (length secs) = sectionCount \<and>
           startPercentage (secs ! 0) = 0 \<and>
           endPercentage (last secs) = 100 \<and>
           (\<forall>i. Suc i < length secs \<longrightarrow>
                  endPercentage (secs ! i) = startPercentage (secs ! Suc i))"
proof -
  obtain secs ci sg where d1: "divideDocumentIntoSections js doc sectionCount = Inr secs"
      and D: "dividedAs js sectionCount secs ci sg"
    using divide_structure[OF assms, of js doc] by blast
  note d = d1 dividedAsD(1,2)[OF D]
  have pos: "0 < nat sectionCount" using assms by simp
  have ne: "secs \<noteq> []" using d(2) pos by auto
  have "last secs = secs ! (nat sectionCount - 1)" using ne d(2) by (simp add: last_conv_nth)
  moreover have "endPercentage (secs ! (nat sectionCount - 1)) =
      (of_nat ((nat sectionCount - 1) + 1) / of_int sectionCount) * 100"
    using d(3)[rule_format, of "nat sectionCount - 1"] pos by simp
  moreover have "(of_nat ((nat sectionCount - 1) + 1) :: rat) = of_int sectionCount"
    using assms by (simp add: of_nat_diff)
  ultimately have l: "endPercentage (last secs) = 100" using assms by simp
  have f: "startPercentage (secs ! 0) = 0" using d(3) pos by simp
  have c: "\<forall>i. Suc i < length secs \<longrightarrow> endPercentage (secs ! i) = startPercentage (secs ! Suc i)"
    using d(2,3) by simp
  have n: "int (length secs) = sectionCount" using d(2) assms by simp
  show ?thesis
    apply (rule exI[of _ secs])
    apply (intro conjI)
        apply (rule d(1))
       apply (rule n)
      apply (rule f)
     apply (rule l)
    apply (rule c)
    done
qed

theorem divide_covers_document_witness:
  "(1::int) \<le> 4 \<and>
   divideDocumentIntoSections formRuntime formDocument 4 = Inr formSections \<and>
   int (length formSections) = 4 \<and>
   startPercentage (formSections ! 0) = 0 \<and>
   endPercentage (last formSections) = 100 \<and>
   endPercentage (formSections ! 0) = startPercentage (formSections ! 1) \<and>
   endPercentage (formSections ! 1) = startPercentage (formSections ! 2) \<and>
   endPercentage (formSections ! 2) = startPercentage (formSections ! 3)"
proof -
  have one: "(1::int) \<le> 4" by simp
  have len: "length formSections = 4" by (simp add: formSections_def)
  from divide_covers_document[OF one, of formRuntime formDocument]
  have "int (length formSections) = 4 \<and> startPercentage (formSections ! 0) = 0 \<and>
        endPercentage (last formSections) = 100 \<and>
        (\<forall>i. Suc i < length formSections \<longrightarrow>
               endPercentage (formSections ! i) = startPercentage (formSections ! Suc i))"
    by (simp add: divide_form)
  then show ?thesis using one divide_form len by (simp add: numeral_2_eq_2 numeral_3_eq_3)
qed





section \<open>Properties of the layout detector\<close>









section \<open>Properties of the pattern matcher\<close>


lemma indexOf_first:
  assumes "k < length xs" "\<forall>j<k. xs ! j \<noteq> xs ! k"
  shows "indexOf xs (xs ! k) = int k"
proof -
  have "find (\<lambda>i. xs ! i = xs ! k) [0..<length xs] = Some k"
    using assms by (auto simp: find_Some_iff intro!: exI[of _ k])
  then show ?thesis by (simp add: indexOf_def)
qed

lemma tryPatterns_none:
  "(\<forall>p\<in>set rest. capture js p 1 c = None) \<Longrightarrow> tryPatterns js ps rest c = None"
  by (induction rest) auto

lemma tryPatterns_skip:
  "(\<forall>p\<in>set pre. capture js p 1 c = None) \<Longrightarrow>
   tryPatterns js ps (pre @ rest) c = tryPatterns js ps rest c"
  by (induction pre) auto

lemma tryPatterns_first:
  assumes "firstPattern js ps c k m"
  shows "tryPatterns js ps ps c = Some (m, int k)"
proof -
  from assms have k: "k < length ps" and hit: "capture js (ps ! k) 1 c = Some m"
    and pre: "\<forall>p\<in>set (take k ps). capture js p 1 c = None"
    by (auto simp: firstPattern_def noPattern_def list_all_iff)
  have split: "ps = take k ps @ ps ! k # drop (Suc k) ps"
    using k by (simp add: id_take_nth_drop)
  have "\<forall>j<k. ps ! j \<noteq> ps ! k"
  proof (intro allI impI)
    fix j assume j: "j < k"
    then have "ps ! j \<in> set (take k ps)" using k by (auto simp: in_set_conv_nth intro!: exI[of _ j])
    then have "capture js (ps ! j) 1 c = None" using pre by blast
    then show "ps ! j \<noteq> ps ! k" using hit by auto
  qed
  then have ix: "indexOf ps (ps ! k) = int k" using indexOf_first k by blast
  have "tryPatterns js ps ps c = tryPatterns js ps (take k ps @ ps ! k # drop (Suc k) ps) c"
    using split by simp
  also have "\<dots> = tryPatterns js ps (ps ! k # drop (Suc k) ps) c"
    using tryPatterns_skip[OF pre] by simp
  also have "\<dots> = Some (m, int k)" using hit ix by simp
  finally show ?thesis .
qed

lemma tryPatterns_noPattern:
  "noPattern js ps c \<Longrightarrow> tryPatterns js ps ps c = None"
  by (rule tryPatterns_none) (simp add: noPattern_def list_all_iff)

lemma scanSections_none:
  "noSection js ps band \<Longrightarrow> scanSections js ps base decay ty band = None"
  by (induction band) (simp_all add: noSection_def tryPatterns_noPattern)

lemma scanSections_first:
  assumes "firstSection js ps band i" "firstPattern js ps (content (band ! i)) k m"
  shows "scanSections js ps base decay ty band =
           Some \<lparr> position = midpoint (band ! i), match = Some m,
                  confidence = base - int k * decay, sectionType = ty \<rparr>"
  using assms
proof (induction band arbitrary: i)
  case Nil
  then show ?case by (simp add: firstSection_def)
next
  case (Cons s band)
  show ?case
  proof (cases i)
    case 0
    then show ?thesis using Cons.prems(2) by (simp add: tryPatterns_first)
  next
    case (Suc i')
    have "noPattern js ps (content s)"
      using Cons.prems(1) Suc by (simp add: firstSection_def noSection_def)
    moreover have "firstSection js ps band i'"
      using Cons.prems(1) Suc by (simp add: firstSection_def noSection_def)
    moreover have "firstPattern js ps (content (band ! i')) k m" using Cons.prems(2) Suc by simp
    ultimately show ?thesis using Cons.IH Suc by (simp add: tryPatterns_noPattern)
  qed
qed

lemma findPatternInSections_chain:
  "findPatternInSections js secs ps =
     (case scanSections js ps 95 5 (Some ''customerInfo'') (bandSections (bands secs ! 0)) of
        Some r \<Rightarrow> r
      | None \<Rightarrow>
     (case scanSections js ps 90 5 (Some ''top'') (bandSections (bands secs ! 1)) of
        Some r \<Rightarrow> r
      | None \<Rightarrow>
     (case scanSections js ps 80 5 (Some ''middle'') (bandSections (bands secs ! 2)) of
        Some r \<Rightarrow> r
      | None \<Rightarrow>
     (case scanSections js ps 75 7 None (bandSections (bands secs ! 3)) of
        Some r \<Rightarrow> r
      | None \<Rightarrow>
     (case scanSections js ps 30 5 (Some ''signature'') (bandSections (bands secs ! 4)) of
        Some r \<Rightarrow> r
      | None \<Rightarrow>
     (case tryPatterns js ps ps (joinWith newline (map content secs)) of
        Some (m, k) \<Rightarrow>
          \<lparr> position = 50, match = Some m, confidence = 45 - k * 5, sectionType = None \<rparr>
      | None \<Rightarrow>
          \<lparr> position = - 1, match = None, confidence = 0, sectionType = None \<rparr>))))))"
  by (simp add: findPatternInSections_def bands_def split: option.split)

lemma bands_fields:
  "length (bands secs) = 5"
  "bandBase (bands secs ! 0) = 95" "bandDecay (bands secs ! 0) = 5"
  "bandType (bands secs ! 0) = Some ''customerInfo''"
  "bandBase (bands secs ! Suc 0) = 90" "bandDecay (bands secs ! Suc 0) = 5"
  "bandType (bands secs ! Suc 0) = Some ''top''"
  "bandBase (bands secs ! 2) = 80" "bandDecay (bands secs ! 2) = 5"
  "bandType (bands secs ! 2) = Some ''middle''"
  "bandBase (bands secs ! 3) = 75" "bandDecay (bands secs ! 3) = 7"
  "bandType (bands secs ! 3) = None"
  "bandBase (bands secs ! 4) = 30" "bandDecay (bands secs ! 4) = 5"
  "bandType (bands secs ! 4) = Some ''signature''"
  by (simp_all add: bands_def)

lemma findPatternInSections_in_band:
  assumes b: "b < length (bands secs)"
    and earlier: "\<forall>b'<b. noSection js ps (bandSections (bands secs ! b'))"
    and sec: "firstSection js ps (bandSections (bands secs ! b)) i"
    and pat: "firstPattern js ps (content (bandSections (bands secs ! b) ! i)) k m"
  shows "findPatternInSections js secs ps =
           \<lparr> position = midpoint (bandSections (bands secs ! b) ! i), match = Some m,
             confidence = bandBase (bands secs ! b) - bandDecay (bands secs ! b) * int k,
             sectionType = bandType (bands secs ! b) \<rparr>"
proof -
  have "b = 0 \<or> b = 1 \<or> b = 2 \<or> b = 3 \<or> b = 4" using b by (simp add: bands_fields(1)) arith
  then show ?thesis
  proof (elim disjE)
    assume "b = 0"
    then show ?thesis
      using scanSections_first[OF sec pat]
      by (simp add: findPatternInSections_chain bands_fields mult.commute)
  next
    assume e: "b = 1"
    then have "noSection js ps (bandSections (bands secs ! 0))" using earlier by simp
    then show ?thesis
      using scanSections_first[OF sec pat] e
      by (simp add: findPatternInSections_chain bands_fields mult.commute scanSections_none)
  next
    assume e: "b = 2"
    then have "noSection js ps (bandSections (bands secs ! 0))"
      "noSection js ps (bandSections (bands secs ! 1))" using earlier by simp_all
    then show ?thesis
      using scanSections_first[OF sec pat] e
      by (simp add: findPatternInSections_chain bands_fields mult.commute scanSections_none)
  next
    assume e: "b = 3"
    then have "noSection js ps (bandSections (bands secs ! 0))"
      "noSection js ps (bandSections (bands secs ! 1))"
      "noSection js ps (bandSections (bands secs ! 2))" using earlier by simp_all
    then show ?thesis
      using scanSections_first[OF sec pat] e
      by (simp add: findPatternInSections_chain bands_fields mult.commute scanSections_none)
  next
    assume e: "b = 4"
    then have "noSection js ps (bandSections (bands secs ! 0))"
      "noSection js ps (bandSections (bands secs ! 1))"
      "noSection js ps (bandSections (bands secs ! 2))"
      "noSection js ps (bandSections (bands secs ! 3))" using earlier by simp_all
    then show ?thesis
      using scanSections_first[OF sec pat] e
      by (simp add: findPatternInSections_chain bands_fields mult.commute scanSections_none)
  qed
qed

lemma findPatternInSections_no_band:
  assumes "\<forall>b<length (bands secs). noSection js ps (bandSections (bands secs ! b))"
  shows "findPatternInSections js secs ps =
     (case tryPatterns js ps ps (joinWith newline (map content secs)) of
        Some (m, k) \<Rightarrow>
          \<lparr> position = 50, match = Some m, confidence = 45 - k * 5, sectionType = None \<rparr>
      | None \<Rightarrow>
          \<lparr> position = - 1, match = None, confidence = 0, sectionType = None \<rparr>)"
proof -
  have "noSection js ps (bandSections (bands secs ! 0))"
      "noSection js ps (bandSections (bands secs ! 1))"
      "noSection js ps (bandSections (bands secs ! 2))"
      "noSection js ps (bandSections (bands secs ! 3))"
      "noSection js ps (bandSections (bands secs ! 4))"
    using assms by (simp_all add: bands_fields(1))
  then show ?thesis
    by (simp add: findPatternInSections_chain scanSections_none)
qed

text \<open>
  Claim C1. \<^verbatim>\<open>findPatternInSections\<close> searches the bands in the fixed order of \<open>bands\<close>:
  the customer-info section (95, minus 5 per pattern index), the top sections (90, minus 5),
  the middle sections (80, minus 5), the sections that are not signature-tagged (75, minus
  7), the signature-tagged sections (30, minus 5). In the first band with a section on which
  some pattern has a non-empty first group, it takes the first such section in index order
  and on it the first such pattern in list order, and returns that group, the midpoint of
  the section, the band's base confidence less the decay times the index of the pattern,
  and the band's type. If no band has such a section, it tries the patterns on the sections
  joined by newlines (45, minus 5, position 50); if that fails too the result is position
  \<open>-1\<close>, no match, confidence 0.
\<close>

theorem findPatternInSections_band_order:
  "(\<forall>b i k m.
      b < length (bands secs) \<and>
      (\<forall>b'<b. noSection js ps (bandSections (bands secs ! b'))) \<and>
      firstSection js ps (bandSections (bands secs ! b)) i \<and>
      firstPattern js ps (content (bandSections (bands secs ! b) ! i)) k m
      \<longrightarrow> findPatternInSections js secs ps =
            \<lparr> position = midpoint (bandSections (bands secs ! b) ! i), match = Some m,
              confidence = bandBase (bands secs ! b) - bandDecay (bands secs ! b) * int k,
              sectionType = bandType (bands secs ! b) \<rparr>)
   \<and> (\<forall>k m.
      (\<forall>b<length (bands secs). noSection js ps (bandSections (bands secs ! b))) \<and>
      firstPattern js ps (joinWith newline (map content secs)) k m
      \<longrightarrow> findPatternInSections js secs ps =
            \<lparr> position = 50, match = Some m, confidence = 45 - 5 * int k, sectionType = None \<rparr>)
   \<and> ((\<forall>b<length (bands secs). noSection js ps (bandSections (bands secs ! b))) \<and>
      noPattern js ps (joinWith newline (map content secs))
      \<longrightarrow> findPatternInSections js secs ps =
            \<lparr> position = - 1, match = None, confidence = 0, sectionType = None \<rparr>)"
proof (intro conjI allI impI)
  fix b i k m
  assume "b < length (bands secs) \<and>
      (\<forall>b'<b. noSection js ps (bandSections (bands secs ! b'))) \<and>
      firstSection js ps (bandSections (bands secs ! b)) i \<and>
      firstPattern js ps (content (bandSections (bands secs ! b) ! i)) k m"
  then show "findPatternInSections js secs ps =
            \<lparr> position = midpoint (bandSections (bands secs ! b) ! i), match = Some m,
              confidence = bandBase (bands secs ! b) - bandDecay (bands secs ! b) * int k,
              sectionType = bandType (bands secs ! b) \<rparr>"
    using findPatternInSections_in_band by blast
next
  fix k m
  assume a: "(\<forall>b<length (bands secs). noSection js ps (bandSections (bands secs ! b))) \<and>
      firstPattern js ps (joinWith newline (map content secs)) k m"
  then show "findPatternInSections js secs ps =
            \<lparr> position = 50, match = Some m, confidence = 45 - 5 * int k, sectionType = None \<rparr>"
    using findPatternInSections_no_band[of secs js ps] tryPatterns_first[of js ps _ k m]
    by simp
next
  assume a: "(\<forall>b<length (bands secs). noSection js ps (bandSections (bands secs ! b))) \<and>
      noPattern js ps (joinWith newline (map content secs))"
  then show "findPatternInSections js secs ps =
            \<lparr> position = - 1, match = None, confidence = 0, sectionType = None \<rparr>"
    using findPatternInSections_no_band[of secs js ps] tryPatterns_noPattern[of js ps]
    by simp
qed

lemma less_4_cases: "(b' :: nat) < 4 \<Longrightarrow> b' = 0 \<or> b' = 1 \<or> b' = 2 \<or> b' = 3"
  by arith

lemma less_5_cases: "(b :: nat) < 5 \<Longrightarrow> b = 0 \<or> b = 1 \<or> b = 2 \<or> b = 3 \<or> b = 4"
  by arith

theorem findPatternInSections_band_order_witness:
  "4 < length (bands formSections) \<and>
   noSection formRuntime defaultIbanPatterns (bandSections (bands formSections ! 0)) \<and>
   noSection formRuntime defaultIbanPatterns (bandSections (bands formSections ! 1)) \<and>
   noSection formRuntime defaultIbanPatterns (bandSections (bands formSections ! 2)) \<and>
   noSection formRuntime defaultIbanPatterns (bandSections (bands formSections ! 3)) \<and>
   firstSection formRuntime defaultIbanPatterns (bandSections (bands formSections ! 4)) 0 \<and>
   firstPattern formRuntime defaultIbanPatterns
     (content (bandSections (bands formSections ! 4) ! 0)) 1 ''SA0380000000608010167519'' \<and>
   findPatternInSections formRuntime formSections defaultIbanPatterns =
     \<lparr> position = 175 / 2, match = Some ''SA0380000000608010167519'', confidence = 25,
       sectionType = Some ''signature'' \<rparr> \<and>
   firstPattern splitRuntime [defaultServicePatterns ! 0]
     (joinWith newline (map content splitSections)) 0 ''FTTH00516134'' \<and>
   findPatternInSections splitRuntime splitSections [defaultServicePatterns ! 0] =
     \<lparr> position = 50, match = Some ''FTTH00516134'', confidence = 45, sectionType = None \<rparr> \<and>
   noPattern officeRuntime defaultIbanPatterns (joinWith newline (map content officeSections)) \<and>
   findPatternInSections officeRuntime officeSections defaultIbanPatterns =
     \<lparr> position = - 1, match = None, confidence = 0, sectionType = None \<rparr>"
proof -
  have len: "4 < length (bands formSections)" by (simp add: bands_def)
  have n0: "noSection formRuntime defaultIbanPatterns (bandSections (bands formSections ! 0))"
    and n1: "noSection formRuntime defaultIbanPatterns (bandSections (bands formSections ! 1))"
    and n2: "noSection formRuntime defaultIbanPatterns (bandSections (bands formSections ! 2))"
    and n3: "noSection formRuntime defaultIbanPatterns (bandSections (bands formSections ! 3))"
    by code_simp+
  have fs: "firstSection formRuntime defaultIbanPatterns (bandSections (bands formSections ! 4)) 0"
    by code_simp
  have fp: "firstPattern formRuntime defaultIbanPatterns
     (content (bandSections (bands formSections ! 4) ! 0)) 1 ''SA0380000000608010167519''"
    by code_simp
  have earlier: "\<forall>b'<4. noSection formRuntime defaultIbanPatterns (bandSections (bands formSections ! b'))"
    using n0 n1 n2 n3 less_4_cases by blast
  have mid: "midpoint (bandSections (bands formSections ! 4) ! 0) = 175 / 2"
    by code_simp
  note T = findPatternInSections_band_order[of formSections formRuntime defaultIbanPatterns]
  have r1: "findPatternInSections formRuntime formSections defaultIbanPatterns =
     \<lparr> position = 175 / 2, match = Some ''SA0380000000608010167519'', confidence = 25,
       sectionType = Some ''signature'' \<rparr>"
    using T[THEN conjunct1, rule_format, of 4 0 1 "''SA0380000000608010167519''"]
      len earlier fs fp mid by (simp add: bands_def)
  have sp: "firstPattern splitRuntime [defaultServicePatterns ! 0]
     (joinWith newline (map content splitSections)) 0 ''FTTH00516134''"
    by code_simp
  have sn0: "noSection splitRuntime [defaultServicePatterns ! 0] (bandSections (bands splitSections ! 0))"
    and sn1: "noSection splitRuntime [defaultServicePatterns ! 0] (bandSections (bands splitSections ! 1))"
    and sn2: "noSection splitRuntime [defaultServicePatterns ! 0] (bandSections (bands splitSections ! 2))"
    and sn3: "noSection splitRuntime [defaultServicePatterns ! 0] (bandSections (bands splitSections ! 3))"
    and sn4: "noSection splitRuntime [defaultServicePatterns ! 0] (bandSections (bands splitSections ! 4))"
    by code_simp+
  have sall: "\<forall>b<length (bands splitSections).
      noSection splitRuntime [defaultServicePatterns ! 0] (bandSections (bands splitSections ! b))"
  proof (intro allI impI)
    fix b assume "b < length (bands splitSections)"
    then have "b < 5" by (simp add: bands_def)
    then show "noSection splitRuntime [defaultServicePatterns ! 0]
                 (bandSections (bands splitSections ! b))"
      using sn0 sn1 sn2 sn3 sn4 less_5_cases by blast
  qed
  have r2: "findPatternInSections splitRuntime splitSections [defaultServicePatterns ! 0] =
     \<lparr> position = 50, match = Some ''FTTH00516134'', confidence = 45, sectionType = None \<rparr>"
    using findPatternInSections_band_order[of splitSections splitRuntime
            "[defaultServicePatterns ! 0]", THEN conjunct2, THEN conjunct1, rule_format,
            of 0 "''FTTH00516134''"] sall sp
    by simp
  have op: "noPattern officeRuntime defaultIbanPatterns
              (joinWith newline (map content officeSections))"
    by code_simp
  have on0: "noSection officeRuntime defaultIbanPatterns (bandSections (bands officeSections ! 0))"
    and on1: "noSection officeRuntime defaultIbanPatterns (bandSections (bands officeSections ! 1))"
    and on2: "noSection officeRuntime defaultIbanPatterns (bandSections (bands officeSections ! 2))"
    and on3: "noSection officeRuntime defaultIbanPatterns (bandSections (bands officeSections ! 3))"
    and on4: "noSection officeRuntime defaultIbanPatterns (bandSections (bands officeSections ! 4))"
    by code_simp+
  have oall: "\<forall>b<length (bands officeSections).
      noSection officeRuntime defaultIbanPatterns (bandSections (bands officeSections ! b))"
  proof (intro allI impI)
    fix b assume "b < length (bands officeSections)"
    then have "b < 5" by (simp add: bands_def)
    then show "noSection officeRuntime defaultIbanPatterns (bandSections (bands officeSections ! b))"
      using on0 on1 on2 on3 on4 less_5_cases by blast
  qed
  have r3: "findPatternInSections officeRuntime officeSections defaultIbanPatterns =
     \<lparr> position = - 1, match = None, confidence = 0, sectionType = None \<rparr>"
    using findPatternInSections_band_order[of officeSections officeRuntime defaultIbanPatterns,
            THEN conjunct2, THEN conjunct2] oall op
    by simp
  show ?thesis using len n0 n1 n2 n3 fs fp r1 sp r2 op r3 by simp
qed
section \<open>Properties of pattern learning\<close>


lemma count_zero_iff:
  "(length (filter (\<lambda>p. patternRegex p = rx) tbl) = 0) = (rx \<notin> patternRegex ` set tbl)"
  by (auto simp: filter_empty_conv)

lemma learnFromLine_eq:
  "learnFromLine js now ft v line st =
     (case linePattern ft v line of
        None \<Rightarrow> st
      | Some rx \<Rightarrow>
          if rx \<in> storedRegexes st then st
          else loadPatternRegistry js
                 (st\<lparr> extractionPatterns := addPattern ft rx 5 60 1 now (extractionPatterns st) \<rparr>))"
  unfolding learnFromLine_def linePattern_def Let_def storedRegexes_def count_zero_iff
  by (simp split: option.split)

lemma loadPatternRegistry_table [simp]:
  "extractionPatterns (loadPatternRegistry js st) = extractionPatterns st"
  by (simp add: loadPatternRegistry_def Let_def)

lemma learn_fold:
  "\<exists>new. extractionPatterns (fold (learnFromLine js now ft v) lines st)
            = extractionPatterns st @ new \<and>
         (\<forall>p\<in>set new. fieldType p = ft \<and> priority p = 5 \<and> successRate p = 60 \<and> usageCount p = 1) \<and>
         patternRegex ` set new =
           {rx. (\<exists>line\<in>set lines. linePattern ft v line = Some rx) \<and> rx \<notin> storedRegexes st} \<and>
         distinct (map patternRegex new) \<and> length new \<le> length lines"
proof (induction lines arbitrary: st)
  case Nil
  then show ?case by simp
next
  case (Cons line lines)
  define st1 where "st1 = learnFromLine js now ft v line st"
  obtain new1 where n1: "extractionPatterns (fold (learnFromLine js now ft v) lines st1)
            = extractionPatterns st1 @ new1"
      "\<forall>p\<in>set new1. fieldType p = ft \<and> priority p = 5 \<and> successRate p = 60 \<and> usageCount p = 1"
      "patternRegex ` set new1 =
           {rx. (\<exists>line\<in>set lines. linePattern ft v line = Some rx) \<and> rx \<notin> storedRegexes st1}"
      "distinct (map patternRegex new1)" "length new1 \<le> length lines"
    using Cons.IH[of st1] by blast
  show ?case
  proof (cases "\<exists>rx. linePattern ft v line = Some rx \<and> rx \<notin> storedRegexes st")
    case False
    then have e: "st1 = st" unfolding st1_def learnFromLine_eq by (auto split: option.split)
    have "{rx. (\<exists>l\<in>set (line # lines). linePattern ft v l = Some rx) \<and> rx \<notin> storedRegexes st}
        = {rx. (\<exists>l\<in>set lines. linePattern ft v l = Some rx) \<and> rx \<notin> storedRegexes st}"
      using False by auto
    then show ?thesis
      using n1 e by (auto simp: st1_def[symmetric] intro!: exI[of _ new1])
  next
    case True
    then obtain rx where rx: "linePattern ft v line = Some rx" "rx \<notin> storedRegexes st" by blast
    define row where "row = \<lparr> idKey = nextKey (map idKey (extractionPatterns st)), fieldType = ft,
        patternRegex = rx, priority = 5, successRate = 60, usageCount = 1, timestamp = now \<rparr>"
    have t1: "extractionPatterns st1 = extractionPatterns st @ [row]"
      unfolding st1_def learnFromLine_eq using rx by (simp add: addPattern_def row_def)
    have s1: "storedRegexes st1 = insert rx (storedRegexes st)"
      using t1 by (auto simp: storedRegexes_def row_def)
    have set_eq: "patternRegex ` set (row # new1) =
        {r. (\<exists>l\<in>set (line # lines). linePattern ft v l = Some r) \<and> r \<notin> storedRegexes st}"
      using n1(3) s1 rx by (auto simp: row_def)
    have "rx \<notin> patternRegex ` set new1" using n1(3) s1 by auto
    then have d: "distinct (map patternRegex (row # new1))" using n1(4) by (simp add: row_def)
    have "extractionPatterns (fold (learnFromLine js now ft v) (line # lines) st)
            = extractionPatterns st @ (row # new1)"
      using n1(1) t1 by (simp add: st1_def[symmetric])
    moreover have "\<forall>p\<in>set (row # new1). fieldType p = ft \<and> priority p = 5 \<and> successRate p = 60 \<and> usageCount p = 1"
      using n1(2) by (simp add: row_def)
    moreover have "length (row # new1) \<le> length (line # lines)" using n1(5) by simp
    ultimately show ?thesis using set_eq d by blast
  qed
qed




lemma learn_appends:
  "\<exists>new. extractionPatterns (learnNewPattern js now ft ctx v st) = extractionPatterns st @ new \<and>
         (\<forall>p\<in>set new. fieldType p = ft \<and> priority p = 5 \<and> successRate p = 60 \<and> usageCount p = 1) \<and>
         patternRegex ` set new =
           {rx. (\<exists>line\<in>set (splitOn newline ctx). linePattern ft v line = Some rx) \<and>
                rx \<notin> storedRegexes st} \<and>
         distinct (map patternRegex new) \<and> length new \<le> length (splitOn newline ctx)"
  unfolding learnNewPattern_def by (rule learn_fold)




text \<open>
  Claim C7, as stated, fails: the check for an existing pattern reads the whole table, so
  the same \<open>patternRegex\<close> stored under another field type blocks the insertion.
\<close>

theorem learnNewPattern_blocked_by_other_field:
  "linePattern ''customerName'' ''John'' ''Name: John'' = Some nameColon \<and>
   filter (\<lambda>p. fieldType p = ''customerName'' \<and> patternRegex p = nameColon)
     (extractionPatterns crossService) = [] \<and>
   map fieldType (filter (\<lambda>p. patternRegex p = nameColon) (extractionPatterns crossService))
     = [''refundAmount''] \<and>
   extractionPatterns
     (learnNewPattern formRuntime ''2025-01-03T00:00:00.000Z'' ''customerName'' ''Name: John''
        ''John'' crossService)
   = extractionPatterns crossService"
  by code_simp

text \<open>
  Claim C7, amended. \<^verbatim>\<open>learnNewPattern\<close> inserts a pattern if and only if it is the pattern
  derived from a line of the context and no row of the registry, of whatever field type,
  has the same \<open>patternRegex\<close>; every row it inserts has priority 5, success rate 60 and the
  field type of the call, and it changes no row that was stored.
\<close>

theorem learnNewPattern_inserts:
  "\<exists>new. extractionPatterns (learnNewPattern js now ft ctx v st) = extractionPatterns st @ new \<and>
         (\<forall>p\<in>set new. priority p = 5 \<and> successRate p = 60 \<and> fieldType p = ft) \<and>
         (\<forall>rx. rx \<in> patternRegex ` set new \<longleftrightarrow>
                 (\<exists>line\<in>set (splitOn newline ctx). linePattern ft v line = Some rx) \<and>
                 rx \<notin> storedRegexes st)"
proof -
  obtain new where n:
      "extractionPatterns (learnNewPattern js now ft ctx v st) = extractionPatterns st @ new"
      "\<forall>p\<in>set new. fieldType p = ft \<and> priority p = 5 \<and> successRate p = 60 \<and> usageCount p = 1"
      "patternRegex ` set new =
           {rx. (\<exists>line\<in>set (splitOn newline ctx). linePattern ft v line = Some rx) \<and>
                rx \<notin> storedRegexes st}"
    using learn_appends[of js now ft ctx v st] by blast
  have "\<forall>rx. rx \<in> patternRegex ` set new \<longleftrightarrow>
                 (\<exists>line\<in>set (splitOn newline ctx). linePattern ft v line = Some rx) \<and>
                 rx \<notin> storedRegexes st"
    unfolding n(3) by simp
  moreover have "\<forall>p\<in>set new. priority p = 5 \<and> successRate p = 60 \<and> fieldType p = ft"
    using n(2) by blast
  ultimately show ?thesis using n(1) by blast
qed

theorem learnNewPattern_inserts_witness:
  "(\<exists>new. extractionPatterns
            (learnNewPattern formRuntime ''2025-01-03T00:00:00.000Z'' ''customerName''
               twoLineContext ''John'' crossService)
          = extractionPatterns crossService @ new \<and>
          list_all (\<lambda>p. priority p = 5 \<and> successRate p = 60 \<and> fieldType p = ''customerName'') new \<and>
          clientColon \<in> patternRegex ` set new \<and> nameColon \<notin> patternRegex ` set new) \<and>
   nameColon \<in> storedRegexes crossService \<and>
   clientColon \<notin> storedRegexes crossService \<and>
   map (\<lambda>p. (fieldType p, patternRegex p, priority p, successRate p))
     (drop 6 (extractionPatterns
        (learnNewPattern formRuntime ''2025-01-03T00:00:00.000Z'' ''customerName''
           twoLineContext ''John'' crossService)))
   = [(''customerName'', clientColon, 5, 60)]"
proof -
  have lines: "splitOn newline twoLineContext = [''Name: John'', ''Client: John'']"
    and b: "linePattern ''customerName'' ''John'' ''Name: John'' = Some nameColon"
    and c: "linePattern ''customerName'' ''John'' ''Client: John'' = Some clientColon"
    by code_simp+
  have stored: "storedRegexes crossService = set (map patternRegex (seedPatterns [] []) @ [nameColon])"
    unfolding storedRegexes_def set_map[symmetric]
    by (rule arg_cong[where f = set]) code_simp
  have inS: "nameColon \<in> storedRegexes crossService" unfolding stored by simp
  have notS: "clientColon \<notin> storedRegexes crossService" unfolding stored by code_simp
  have ev: "map (\<lambda>p. (fieldType p, patternRegex p, priority p, successRate p))
     (drop 6 (extractionPatterns
        (learnNewPattern formRuntime ''2025-01-03T00:00:00.000Z'' ''customerName''
           twoLineContext ''John'' crossService)))
   = [(''customerName'', clientColon, 5, 60)]"
    by code_simp
  obtain new where n: "extractionPatterns
            (learnNewPattern formRuntime ''2025-01-03T00:00:00.000Z'' ''customerName''
               twoLineContext ''John'' crossService)
          = extractionPatterns crossService @ new"
      "\<forall>p\<in>set new. priority p = 5 \<and> successRate p = 60 \<and> fieldType p = ''customerName''"
      "\<forall>rx. rx \<in> patternRegex ` set new \<longleftrightarrow>
                 (\<exists>line\<in>set (splitOn newline twoLineContext).
                     linePattern ''customerName'' ''John'' line = Some rx) \<and>
                 rx \<notin> storedRegexes crossService"
    using learnNewPattern_inserts[of formRuntime "''2025-01-03T00:00:00.000Z''" "''customerName''"
        twoLineContext "''John''" crossService] by blast
  have "clientColon \<in> patternRegex ` set new" using n(3) lines c notS by simp
  moreover have "nameColon \<notin> patternRegex ` set new" using n(3) inS by simp
  moreover have "list_all (\<lambda>p. priority p = 5 \<and> successRate p = 60 \<and> fieldType p = ''customerName'') new"
    using n(2) by (simp add: list_all_iff)
  ultimately show ?thesis using n(1) inS notS ev by blast
qed
section \<open>Properties of the success-rate update\<close>


lemma recordCorrection_split:
  "recordCorrection js now ft orig corr doc ctx st =
     updatePatternSuccessRates js now ft orig corr (correctionLearned js now ft orig corr doc ctx st)"
  by (simp add: recordCorrection_def correctionLearned_def Let_def)

lemma fold_max_ge: "a \<le> fold max ks (a::nat) \<and> (\<forall>k\<in>set ks. k \<le> fold max ks a)"
proof (induction ks arbitrary: a)
  case Nil
  then show ?case by simp
next
  case (Cons k ks)
  have "max k a \<le> fold max ks (max k a) \<and> (\<forall>j\<in>set ks. j \<le> fold max ks (max k a))"
    using Cons.IH by blast
  then show ?case by auto
qed

lemma nextKey_fresh: "nextKey ks \<notin> set ks"
  using fold_max_ge[of 0 ks] by (auto simp: nextKey_def)

lemma addPattern_ok:
  "tableOk tbl \<Longrightarrow> tableOk (addPattern ft rx pr sr uc ts tbl)"
  using nextKey_fresh[of "map idKey tbl"] by (simp add: tableOk_def addPattern_def)

lemma addPattern_rates:
  "ratesOk tbl \<Longrightarrow> 0 \<le> sr \<Longrightarrow> sr \<le> 100 \<Longrightarrow> ratesOk (addPattern ft rx pr sr uc ts tbl)"
  by (simp add: ratesOk_def addPattern_def)

lemma seedPatterns_ok: "tableOk tbl \<Longrightarrow> tableOk (seedPatterns ts tbl)"
  unfolding seedPatterns_def by (intro addPattern_ok)

lemma seedPatterns_rates: "ratesOk tbl \<Longrightarrow> ratesOk (seedPatterns ts tbl)"
  unfolding seedPatterns_def by (intro addPattern_rates) simp_all

lemma initialize_table:
  "extractionPatterns (initialize js now st) =
     (if \<not> initialized st \<and> extractionPatterns st = [] then seedPatterns now []
      else extractionPatterns st)"
  by (simp add: initialize_def Let_def initializeFuseSearch_def)

lemma initialize_ok:
  "tableOk (extractionPatterns st) \<Longrightarrow> tableOk (extractionPatterns (initialize js now st))"
  using seedPatterns_ok[of "[]" now] by (simp add: initialize_table tableOk_def)

lemma initialize_rates:
  "ratesOk (extractionPatterns st) \<Longrightarrow> ratesOk (extractionPatterns (initialize js now st))"
  using seedPatterns_rates[of "[]" now] by (simp add: initialize_table ratesOk_def)

lemma learnFromLine_ok:
  "tableOk (extractionPatterns st) \<Longrightarrow> tableOk (extractionPatterns (learnFromLine js now ft v line st))"
  unfolding learnFromLine_eq by (auto split: option.split intro: addPattern_ok)

lemma learnFromLine_rates:
  "ratesOk (extractionPatterns st) \<Longrightarrow> ratesOk (extractionPatterns (learnFromLine js now ft v line st))"
  unfolding learnFromLine_eq by (auto split: option.split intro: addPattern_rates)

lemma fold_learn_ok:
  "tableOk (extractionPatterns st) \<Longrightarrow>
   tableOk (extractionPatterns (fold (learnFromLine js now ft v) lines st))"
  by (induction lines arbitrary: st) (auto intro: learnFromLine_ok)

lemma fold_learn_rates:
  "ratesOk (extractionPatterns st) \<Longrightarrow>
   ratesOk (extractionPatterns (fold (learnFromLine js now ft v) lines st))"
  by (induction lines arbitrary: st) (auto intro: learnFromLine_rates)

lemma initialize_initialized: "initialized (initialize js now st)"
  by (simp add: initialize_def Let_def loadPatternRegistry_def initializeFuseSearch_def)

lemma initialize_idem: "initialized st \<Longrightarrow> initialize js now st = st"
  by (simp add: initialize_def)

lemma correctionLearned_table:
  "extractionPatterns (correctionLearned js now ft orig corr doc ctx st) =
     (if truthy ctx
      then extractionPatterns
             (learnNewPattern js now ft (the ctx) corr
               (learnNewPattern js now ft (the ctx) corr
                 (initializeFuseSearch
                   ((initialize js now st)
                      \<lparr> correctionHistory :=
                          addCorrection ft orig corr doc 100 now
                            (correctionHistory (initialize js now st)),
                        trainingExamples :=
                          addExample ft ft corr ctx 90 now
                            (trainingExamples (initialize js now st)) \<rparr>))))
      else extractionPatterns (initialize js now st))"
proof -
  define st2 where "st2 = (initialize js now st)
      \<lparr> correctionHistory := addCorrection ft orig corr doc 100 now
                               (correctionHistory (initialize js now st)) \<rparr>"
  have "initialized st2" by (simp add: st2_def initialize_initialized)
  then have "initialize js now st2 = st2" by (rule initialize_idem)
  then show ?thesis
    unfolding correctionLearned_def Let_def addTrainingExample_def st2_def[symmetric]
    by (simp add: st2_def initializeFuseSearch_def)
qed

lemma correctionLearned_ok:
  assumes "tableOk (extractionPatterns st)"
  shows "tableOk (extractionPatterns (correctionLearned js now ft orig corr doc ctx st))"
  unfolding correctionLearned_table learnNewPattern_def
  using initialize_ok[OF assms, of js now]
  by (auto intro!: fold_learn_ok simp: initializeFuseSearch_def)

lemma correctionLearned_rates:
  assumes "ratesOk (extractionPatterns st)"
  shows "ratesOk (extractionPatterns (correctionLearned js now ft orig corr doc ctx st))"
  unfolding correctionLearned_table learnNewPattern_def
  using initialize_rates[OF assms, of js now]
  by (auto intro!: fold_learn_rates simp: initializeFuseSearch_def)

lemma updateRate_table:
  "extractionPatterns (updateRate js now orig corr p st) =
     (if matchesOriginal js orig p
      then updatePattern (idKey p) (movingAverage (successRate p) (orig = corr)) (usageCount p + 1) now
             (extractionPatterns st)
      else extractionPatterns st)"
  by (auto simp: updateRate_def matchesOriginal_def test_def movingAverage_def learningRate_def
      Let_def split: option.split)

lemma fold_updateRate:
  assumes "distinct (map idKey ps)"
    and "\<forall>q\<in>set (extractionPatterns st). idKey q \<in> idKey ` set ps \<longrightarrow> q \<in> set ps"
  shows "extractionPatterns (fold (updateRate js now orig corr) ps st) =
           map (\<lambda>q. if q \<in> set ps \<and> matchesOriginal js orig q
                     then q\<lparr> successRate := movingAverage (successRate q) (orig = corr),
                             usageCount := usageCount q + 1, timestamp := now \<rparr>
                     else q) (extractionPatterns st)"
  using assms
proof (induction ps arbitrary: st)
  case Nil
  then show ?case by (simp add: map_idI)
next
  case (Cons p ps)
  define st1 where "st1 = updateRate js now orig corr p st"
  define upd where "upd = (\<lambda>q::ExtractionPattern. q\<lparr> successRate := movingAverage (successRate q) (orig = corr),
                             usageCount := usageCount q + 1, timestamp := now \<rparr>)"
  have idp: "idKey p \<notin> idKey ` set ps" and dps: "distinct (map idKey ps)"
    using Cons.prems(1) by auto
  have same: "\<And>q. q \<in> set (extractionPatterns st) \<Longrightarrow> idKey q = idKey p \<Longrightarrow> q = p"
  proof -
    fix q assume q: "q \<in> set (extractionPatterns st)" "idKey q = idKey p"
    then have "q \<in> set (p # ps)" using Cons.prems(2) by auto
    then show "q = p" using q(2) idp by (metis image_eqI set_ConsD)
  qed
  have t1: "extractionPatterns st1 =
      map (\<lambda>q. if q = p \<and> matchesOriginal js orig p then upd p else q) (extractionPatterns st)"
    unfolding st1_def updateRate_table updatePattern_def upd_def
    using same by (auto simp: map_idI)
  have inv: "\<forall>q\<in>set (extractionPatterns st1). idKey q \<in> idKey ` set ps \<longrightarrow> q \<in> set ps"
  proof (intro ballI impI)
    fix q assume q: "q \<in> set (extractionPatterns st1)" "idKey q \<in> idKey ` set ps"
    then obtain q0 where q0: "q0 \<in> set (extractionPatterns st)"
        "q = (if q0 = p \<and> matchesOriginal js orig p then upd p else q0)"
      using t1 by auto
    have "idKey (upd p) = idKey p" by (simp add: upd_def)
    then have "q = q0" "q0 \<noteq> p" using q0(2) q(2) idp by (auto split: if_splits)
    then show "q \<in> set ps" using Cons.prems(2) q0(1) q(2) by auto
  qed
  have "extractionPatterns (fold (updateRate js now orig corr) (p # ps) st) =
        map (\<lambda>q. if q \<in> set ps \<and> matchesOriginal js orig q then upd q else q) (extractionPatterns st1)"
    using Cons.IH[OF dps inv] by (simp add: st1_def upd_def)
  also have "\<dots> = map (\<lambda>q. if q \<in> set (p # ps) \<and> matchesOriginal js orig q then upd q else q)
                      (extractionPatterns st)"
  proof -
    have u: "upd p \<notin> set ps"
    proof
      assume "upd p \<in> set ps"
      then have "idKey (upd p) \<in> idKey ` set ps" by blast
      then show False using idp by (simp add: upd_def)
    qed
    show ?thesis unfolding t1 using u by auto
  qed
  finally show ?case by (simp add: upd_def)
qed

lemma updatePatternSuccessRates_table:
  assumes "tableOk (extractionPatterns st)"
  shows "extractionPatterns (updatePatternSuccessRates js now ft orig corr st) =
           map (rescored js now ft orig corr) (extractionPatterns st)"
proof -
  define ps where "ps = filter (\<lambda>p. fieldType p = ft) (extractionPatterns st)"
  have d: "distinct (map idKey ps)"
    using assms unfolding ps_def tableOk_def by (simp add: distinct_map_filter)
  have inv: "\<forall>q\<in>set (extractionPatterns st). idKey q \<in> idKey ` set ps \<longrightarrow> q \<in> set ps"
  proof (intro ballI impI)
    fix q assume q: "q \<in> set (extractionPatterns st)" "idKey q \<in> idKey ` set ps"
    then obtain p where p: "p \<in> set ps" "idKey p = idKey q" by auto
    then have "p \<in> set (extractionPatterns st)" by (simp add: ps_def)
    then have "p = q" using assms q(1) p(2) unfolding tableOk_def
      by (meson distinct_map inj_onD)
    then show "q \<in> set ps" using p(1) by simp
  qed
  have "extractionPatterns (updatePatternSuccessRates js now ft orig corr st) =
        extractionPatterns (fold (updateRate js now orig corr) ps st)"
    by (simp add: updatePatternSuccessRates_def Let_def ps_def)
  also have "\<dots> = map (rescored js now ft orig corr) (extractionPatterns st)"
    unfolding fold_updateRate[OF d inv]
    by (rule map_cong) (auto simp: rescored_def ps_def)
  finally show ?thesis .
qed

lemma movingAverage_bounds:
  "0 \<le> r \<Longrightarrow> r \<le> 100 \<Longrightarrow> 0 \<le> movingAverage r b \<and> movingAverage r b \<le> 100"
  by (simp add: movingAverage_def)

lemma rescored_rates:
  "ratesOk tbl \<Longrightarrow> ratesOk (map (rescored js now ft orig corr) tbl)"
  using movingAverage_bounds
  by (auto simp: ratesOk_def list_all_iff rescored_def)


lemma correctionLearned_appends:
  "\<exists>new. extractionPatterns (correctionLearned js now ft orig corr doc ctx st) =
            extractionPatterns (initialize js now st) @ new \<and>
         list_all (\<lambda>p. successRate p = 60 \<and> fieldType p = ft) new"
proof (cases "truthy ctx")
  case False
  then show ?thesis by (simp add: correctionLearned_table)
next
  case True
  define s0 where "s0 = initializeFuseSearch
                   ((initialize js now st)
                      \<lparr> correctionHistory :=
                          addCorrection ft orig corr doc 100 now
                            (correctionHistory (initialize js now st)),
                        trainingExamples :=
                          addExample ft ft corr ctx 90 now
                            (trainingExamples (initialize js now st)) \<rparr>)"
  define s1 where "s1 = learnNewPattern js now ft (the ctx) corr s0"
  have t0: "extractionPatterns s0 = extractionPatterns (initialize js now st)"
    by (simp add: s0_def initializeFuseSearch_def)
  obtain n1 where n1: "extractionPatterns s1 = extractionPatterns s0 @ n1"
      "\<forall>p\<in>set n1. fieldType p = ft \<and> priority p = 5 \<and> successRate p = 60 \<and> usageCount p = 1"
    using learn_appends[of js now ft "the ctx" corr s0] unfolding s1_def by blast
  obtain n2 where n2: "extractionPatterns (learnNewPattern js now ft (the ctx) corr s1) =
        extractionPatterns s1 @ n2"
      "\<forall>p\<in>set n2. fieldType p = ft \<and> priority p = 5 \<and> successRate p = 60 \<and> usageCount p = 1"
    using learn_appends[of js now ft "the ctx" corr s1] by blast
  have "extractionPatterns (correctionLearned js now ft orig corr doc ctx st) =
          extractionPatterns (initialize js now st) @ (n1 @ n2)"
    using True n1(1) n2(1) t0 by (simp add: correctionLearned_table s0_def s1_def)
  moreover have "list_all (\<lambda>p. successRate p = 60 \<and> fieldType p = ft) (n1 @ n2)"
    using n1(2) n2(2) by (auto simp: list_all_iff)
  ultimately show ?thesis by blast
qed

text \<open>
  Claim C8. Let the stored patterns be those the registry holds when \<^verbatim>\<open>recordCorrection\<close>
  comes to update the success rates: the rows it held after initialisation, followed by the
  rows learned from the context of this correction, which enter with success rate 60.
  Primary keys being distinct, \<^verbatim>\<open>recordCorrection\<close> leaves every stored row of the field type
  whose \<open>patternRegex\<close> compiles and, compiled case-insensitively, matches the original value
  with the success rate \<open>oldRate * (1 - 0.1) + (if originalValue = correctedValue then 100 else
  0) * 0.1\<close> and the usage count one higher, and leaves every other row as it was. If every
  success rate was within [0, 100] before the call, every success rate is within [0, 100]
  after it.
\<close>

theorem recordCorrection_success_rates:
  assumes "distinct (map idKey (extractionPatterns st))"
  shows "extractionPatterns (recordCorrection js now ft orig corr doc ctx st) =
           map (rescored js now ft orig corr)
             (extractionPatterns (correctionLearned js now ft orig corr doc ctx st)) \<and>
         (\<exists>new. extractionPatterns (correctionLearned js now ft orig corr doc ctx st) =
                  extractionPatterns (initialize js now st) @ new \<and>
                list_all (\<lambda>p. successRate p = 60 \<and> fieldType p = ft) new) \<and>
         (ratesOk (extractionPatterns st) \<longrightarrow>
            ratesOk (extractionPatterns (recordCorrection js now ft orig corr doc ctx st)))"
proof -
  have ok: "tableOk (extractionPatterns (correctionLearned js now ft orig corr doc ctx st))"
    using assms by (intro correctionLearned_ok) (simp add: tableOk_def)
  have eq: "extractionPatterns (recordCorrection js now ft orig corr doc ctx st) =
           map (rescored js now ft orig corr)
             (extractionPatterns (correctionLearned js now ft orig corr doc ctx st))"
    unfolding recordCorrection_split by (rule updatePatternSuccessRates_table[OF ok])
  have rates: "ratesOk (extractionPatterns st) \<longrightarrow>
            ratesOk (extractionPatterns (recordCorrection js now ft orig corr doc ctx st))"
    unfolding eq by (auto intro: rescored_rates correctionLearned_rates)
  show ?thesis using eq correctionLearned_appends rates by blast
qed

theorem recordCorrection_success_rates_witness:
  "distinct (map idKey (extractionPatterns seededService)) \<and>
   ratesOk (extractionPatterns seededService) \<and>
   map (\<lambda>p. (fieldType p, successRate p, usageCount p)) (extractionPatterns seededService) =
     [(''customerName'', 95, 10), (''customerName'', 90, 15), (''refundAmount'', 92, 12),
      (''ibanNumber'', 98, 14), (''customerServiceNumber'', 94, 8)] \<and>
   map (\<lambda>p. (fieldType p, successRate p, usageCount p))
     (extractionPatterns
        (correctionLearned formRuntime ''2025-01-05T00:00:00.000Z'' ''customerName'' formLine0 ''Ali''
           ''doc-1'' (Some formLine0) seededService)) =
     [(''customerName'', 95, 10), (''customerName'', 90, 15), (''refundAmount'', 92, 12),
      (''ibanNumber'', 98, 14), (''customerServiceNumber'', 94, 8), (''customerName'', 60, 1)] \<and>
   map (\<lambda>p. (fieldType p, successRate p, usageCount p))
     (extractionPatterns
        (recordCorrection formRuntime ''2025-01-05T00:00:00.000Z'' ''customerName'' formLine0 ''Ali''
           ''doc-1'' (Some formLine0) seededService)) =
     [(''customerName'', 171 / 2, 11), (''customerName'', 81, 16), (''refundAmount'', 92, 12),
      (''ibanNumber'', 98, 14), (''customerServiceNumber'', 94, 8), (''customerName'', 54, 2)] \<and>
   ratesOk (extractionPatterns
        (recordCorrection formRuntime ''2025-01-05T00:00:00.000Z'' ''customerName'' formLine0 ''Ali''
           ''doc-1'' (Some formLine0) seededService))"
proof -
  have keys: "distinct (map idKey (extractionPatterns seededService))" by code_simp
  have r0: "ratesOk (extractionPatterns seededService)" by code_simp
  have before: "map (\<lambda>p. (fieldType p, successRate p, usageCount p)) (extractionPatterns seededService) =
     [(''customerName'', 95, 10), (''customerName'', 90, 15), (''refundAmount'', 92, 12),
      (''ibanNumber'', 98, 14), (''customerServiceNumber'', 94, 8)]"
    by code_simp
  have learned: "map (\<lambda>p. (fieldType p, successRate p, usageCount p))
     (extractionPatterns
        (correctionLearned formRuntime ''2025-01-05T00:00:00.000Z'' ''customerName'' formLine0 ''Ali''
           ''doc-1'' (Some formLine0) seededService)) =
     [(''customerName'', 95, 10), (''customerName'', 90, 15), (''refundAmount'', 92, 12),
      (''ibanNumber'', 98, 14), (''customerServiceNumber'', 94, 8), (''customerName'', 60, 1)]"
    by code_simp
  have rescoredRows: "map (\<lambda>p. (fieldType p, successRate p, usageCount p))
     (map (rescored formRuntime ''2025-01-05T00:00:00.000Z'' ''customerName'' formLine0 ''Ali'')
        (extractionPatterns
          (correctionLearned formRuntime ''2025-01-05T00:00:00.000Z'' ''customerName'' formLine0 ''Ali''
             ''doc-1'' (Some formLine0) seededService))) =
     [(''customerName'', 171 / 2, 11), (''customerName'', 81, 16), (''refundAmount'', 92, 12),
      (''ibanNumber'', 98, 14), (''customerServiceNumber'', 94, 8), (''customerName'', 54, 2)]"
    by code_simp
  note T = recordCorrection_success_rates[OF keys, of formRuntime "''2025-01-05T00:00:00.000Z''"
      "''customerName''" formLine0 "''Ali''" "''doc-1''" "Some formLine0"]
  have after: "map (\<lambda>p. (fieldType p, successRate p, usageCount p))
     (extractionPatterns
        (recordCorrection formRuntime ''2025-01-05T00:00:00.000Z'' ''customerName'' formLine0 ''Ali''
           ''doc-1'' (Some formLine0) seededService)) =
     [(''customerName'', 171 / 2, 11), (''customerName'', 81, 16), (''refundAmount'', 92, 12),
      (''ibanNumber'', 98, 14), (''customerServiceNumber'', 94, 8), (''customerName'', 54, 2)]"
    using T[THEN conjunct1] rescoredRows by simp
  have r1: "ratesOk (extractionPatterns
        (recordCorrection formRuntime ''2025-01-05T00:00:00.000Z'' ''customerName'' formLine0 ''Ali''
           ''doc-1'' (Some formLine0) seededService))"
    using T[THEN conjunct2, THEN conjunct2] r0 by simp
  show ?thesis using keys r0 before learned after r1 by simp
qed
section \<open>Properties of the name extractor\<close>

lemma firstCapture_Some:
  "firstCapture js ps c = Some m \<Longrightarrow> \<exists>p\<in>set ps. capture js p 1 c = Some m"
  by (induction ps) (auto split: option.splits)

lemma firstCapture_None:
  "(firstCapture js ps c = None) = (\<forall>p\<in>set ps. capture js p 1 c = None)"
  by (induction ps) (auto split: option.splits)

lemma nameInCustomerInfo_found:
  assumes "holdsLabelledName js svc c"
  shows "\<exists>r. nameInCustomerInfo js (getPatterns svc ''customerName'' @ defaultNamePatterns) c = Some r \<and>
             (fieldConfidence r = 98 \<or> fieldConfidence r = 95) \<and>
             fieldPosition r = midpoint c \<and>
             (\<exists>pk\<in>set (labelPatterns svc). \<exists>m.
                 capture js (fst pk) (snd pk) (content c) = Some m \<and> fieldValue r = trim m)"
proof (cases "capture js treasuryNamePattern 1 (content c)")
  case (Some m)
  then show ?thesis
    by (auto simp: nameInCustomerInfo_def found_def labelPatterns_def)
next
  case None
  note treasury = this
  show ?thesis
  proof (cases "capture js titlePattern 2 (content c)")
    case (Some m)
    then show ?thesis
      using treasury by (auto simp: nameInCustomerInfo_def found_def labelPatterns_def)
  next
    case None
    obtain pk where pk: "pk \<in> set (labelPatterns svc)"
        "capture js (fst pk) (snd pk) (content c) \<noteq> None"
      using assms by (auto simp: holdsLabelledName_def list_ex_iff)
    have "pk \<noteq> (treasuryNamePattern, 1)" using pk(2) treasury by auto
    moreover have "pk \<noteq> (titlePattern, 2)" using pk(2) None by auto
    ultimately have "pk \<in> (\<lambda>p. (p, 1)) ` set (getPatterns svc ''customerName'' @ defaultNamePatterns)"
      using pk(1) unfolding labelPatterns_def by auto
    then obtain p0 where p0: "p0 \<in> set (getPatterns svc ''customerName'' @ defaultNamePatterns)"
        "pk = (p0, 1)"
      by blast
    have "capture js p0 1 (content c) \<noteq> None" using pk(2) p0(2) by simp
    then have "\<exists>p\<in>set (getPatterns svc ''customerName'' @ defaultNamePatterns).
                 capture js p 1 (content c) \<noteq> None"
      using p0(1) by blast
    then obtain m where m: "firstCapture js (getPatterns svc ''customerName'' @ defaultNamePatterns)
                              (content c) = Some m"
      using firstCapture_None[of js "getPatterns svc ''customerName'' @ defaultNamePatterns" "content c"]
      by (cases "firstCapture js (getPatterns svc ''customerName'' @ defaultNamePatterns) (content c)")
         auto
    then obtain p where p: "p \<in> set (getPatterns svc ''customerName'' @ defaultNamePatterns)"
        "capture js p 1 (content c) = Some m"
      using firstCapture_Some by blast
    have "(p, 1) \<in> set (labelPatterns svc)" using p(1) by (auto simp: labelPatterns_def)
    then have "\<exists>pk\<in>set (labelPatterns svc). \<exists>m'.
                 capture js (fst pk) (snd pk) (content c) = Some m' \<and> trim m = trim m'"
      using p(2) by force
    then show ?thesis
      using treasury None m by (simp add: nameInCustomerInfo_def found_def)
  qed
qed

lemma extractCustomerName_customerInfo:
  assumes "find isCustomerInfoSection secs = Some c"
    and "nameInCustomerInfo js (getPatterns svc ''customerName'' @ defaultNamePatterns) c = Some r"
  shows "extractCustomerName js svc secs = r"
  using assms by (simp add: extractCustomerName_def Let_def)

lemma customerInfo_not_signature:
  assumes d: "divideDocumentIntoSections js doc n = Inr secs"
    and c: "find isCustomerInfoSection secs = Some c"
  shows "\<not> isSignatureSection c"
proof -
  have n: "1 \<le> n" using d by (rule divide_Inr_positive)
  obtain secs' ci sg where s1: "divideDocumentIntoSections js doc n = Inr secs'"
      and D: "dividedAs js n secs' ci sg"
    using divide_structure[OF n, of js doc] by blast
  note s = s1 dividedAsD(1,2,3,4,6)[OF D]
  have e: "secs' = secs" using s(1) d by simp
  obtain i where i: "i < length secs" "isCustomerInfoSection (secs ! i)" "c = secs ! i"
    using c by (auto simp: find_Some_iff)
  then have ici: "i = ci" using s(2,3) e by auto
  have npos: "(0::rat) < of_int n" using n by simp
  have "(of_nat ci / of_int n) * (100::rat) \<le> (of_nat (ci + 1) / of_int n) * 100"
    using npos by (simp add: divide_right_mono)
  then have se: "startPercentage (secs ! ci) \<le> endPercentage (secs ! ci)"
    using s(3,4) e by simp
  have "startPercentage (secs ! ci) < 50"
  proof (cases "ci = 0")
    case True
    then show ?thesis using s(3,4) e by simp
  next
    case False
    then have "endPercentage (secs ! ci) \<le> 40" using s(5) e by simp
    then show ?thesis using se by simp
  qed
  then have "int ci \<noteq> sg" using s(6) e by auto
  then show ?thesis using s(3,4) e i(3) ici by simp
qed

text \<open>
  Claim C2. Take a document whose divided sections have the customer-info-tagged section
  \<open>c\<close>, on whose text the treasury label pattern, the title pattern or one of the
  customer-name patterns has a non-empty group. Then \<^verbatim>\<open>extractCustomerName\<close> returns a name
  with confidence above 90, at the midpoint of \<open>c\<close>, that is the trimmed group of such a
  pattern on the text of \<open>c\<close>. The section \<open>c\<close> is not the signature-tagged one, and the result
  does not depend on any other section: whatever else the list holds, a signature section
  with another name included, the result is the same.
\<close>

theorem customer_info_name_preferred:
  assumes "divideDocumentIntoSections js doc sectionCount = Inr secs"
    and "find isCustomerInfoSection secs = Some c"
    and "holdsLabelledName js svc c"
  shows "90 < fieldConfidence (extractCustomerName js svc secs) \<and>
         fieldPosition (extractCustomerName js svc secs) = midpoint c \<and>
         (\<exists>pk\<in>set (labelPatterns svc). \<exists>m.
             capture js (fst pk) (snd pk) (content c) = Some m \<and>
             fieldValue (extractCustomerName js svc secs) = trim m) \<and>
         \<not> isSignatureSection c \<and>
         (\<forall>others. find isCustomerInfoSection others = Some c \<longrightarrow>
             extractCustomerName js svc others = extractCustomerName js svc secs)"
proof -
  obtain r where r: "nameInCustomerInfo js (getPatterns svc ''customerName'' @ defaultNamePatterns) c
                       = Some r"
      "fieldConfidence r = 98 \<or> fieldConfidence r = 95"
      "fieldPosition r = midpoint c"
      "\<exists>pk\<in>set (labelPatterns svc). \<exists>m.
          capture js (fst pk) (snd pk) (content c) = Some m \<and> fieldValue r = trim m"
    using nameInCustomerInfo_found[OF assms(3)] by blast
  have e: "extractCustomerName js svc secs = r"
    using extractCustomerName_customerInfo[OF assms(2) r(1)] .
  have o: "\<forall>others. find isCustomerInfoSection others = Some c \<longrightarrow>
             extractCustomerName js svc others = extractCustomerName js svc secs"
    using extractCustomerName_customerInfo[OF _ r(1)] e by simp
  have c: "90 < fieldConfidence (extractCustomerName js svc secs)" using r(2) e by auto
  have p: "fieldPosition (extractCustomerName js svc secs) = midpoint c" using r(3) e by simp
  have v: "\<exists>pk\<in>set (labelPatterns svc). \<exists>m.
             capture js (fst pk) (snd pk) (content c) = Some m \<and>
             fieldValue (extractCustomerName js svc secs) = trim m"
    using r(4) e by simp
  note ns = customerInfo_not_signature[OF assms(1,2)]
  show ?thesis
    apply (intro conjI)
        apply (rule c)
       apply (rule p)
      apply (rule v)
     apply (rule ns)
    apply (rule o)
    done
qed

theorem customer_info_name_preferred_witness:
  "divideDocumentIntoSections formRuntime formDocument 4 = Inr formSections \<and>
   find isCustomerInfoSection formSections = Some (formSections ! 0) \<and>
   holdsLabelledName formRuntime seededService (formSections ! 0) \<and>
   content (formSections ! 0) = ''Customer Name: Ali'' \<and>
   isSignatureSection (formSections ! 3) \<and>
   content (formSections ! 3) = ''Signature: Bob, IBAN Number: SA0380000000608010167519'' \<and>
   extractCustomerName formRuntime seededService formSections =
     \<lparr> fieldValue = ''Ali'', fieldConfidence = 98, fieldPosition = 25 / 2 \<rparr> \<and>
   90 < fieldConfidence (extractCustomerName formRuntime seededService formSections) \<and>
   \<not> isSignatureSection (formSections ! 0)"
proof -
  have f: "find isCustomerInfoSection formSections = Some (formSections ! 0)" by code_simp
  have h: "holdsLabelledName formRuntime seededService (formSections ! 0)" by code_simp
  have c0: "content (formSections ! 0) = ''Customer Name: Ali''"
    and s3: "isSignatureSection (formSections ! 3)"
    and c3: "content (formSections ! 3) = ''Signature: Bob, IBAN Number: SA0380000000608010167519''"
    by code_simp+
  have ev: "extractCustomerName formRuntime seededService formSections =
     \<lparr> fieldValue = ''Ali'', fieldConfidence = 98, fieldPosition = 25 / 2 \<rparr>"
    by code_simp
  note T = customer_info_name_preferred[OF divide_form f h]
  have conf: "90 < fieldConfidence (extractCustomerName formRuntime seededService formSections)"
    by (rule T[THEN conjunct1])
  have ns: "\<not> isSignatureSection (formSections ! 0)"
    by (rule T[THEN conjunct2, THEN conjunct2, THEN conjunct2, THEN conjunct1])
  show ?thesis using divide_form f h c0 s3 c3 ev conf ns by simp
qed

lemma indexOf_nonneg: "x \<in> set xs \<Longrightarrow> 0 \<le> indexOf xs x"
proof -
  assume "x \<in> set xs"
  then obtain i where "i < length xs" "xs ! i = x" by (auto simp: in_set_conv_nth)
  then have "find (\<lambda>i. xs ! i = x) [0..<length xs] \<noteq> None"
    by (auto simp: find_None_iff)
  then show ?thesis by (auto simp: indexOf_def split: option.split)
qed

lemma tryPatterns_index:
  "tryPatterns js ps rest c = Some (m, k) \<Longrightarrow> set rest \<subseteq> set ps \<Longrightarrow> 0 \<le> k"
  by (induction rest) (auto split: option.splits simp: indexOf_nonneg)

lemma scanSections_result:
  "scanSections js ps base decay ty band = Some r \<Longrightarrow> 0 \<le> decay \<Longrightarrow>
   confidence r \<le> base \<and> sectionType r = ty"
proof (induction band)
  case Nil
  then show ?case by simp
next
  case (Cons s band)
  show ?case
  proof (cases "tryPatterns js ps ps (content s)")
    case None
    then show ?thesis using Cons by simp
  next
    case (Some mk)
    obtain m k where mk: "mk = (m, k)" by (cases mk)
    have "0 \<le> k" using tryPatterns_index[of js ps ps "content s" m k] Some mk by simp
    then have "0 \<le> k * decay" using Cons.prems(2) by simp
    then show ?thesis using Cons.prems(1) Some mk by auto
  qed
qed

lemma findPatternInSections_signature:
  assumes "sectionType (findPatternInSections js secs ps) = Some ''signature''"
  shows "confidence (findPatternInSections js secs ps) \<le> 30"
proof -
  have z: "(0::int) \<le> 5" "(0::int) \<le> 7" by simp_all
  show ?thesis
    using assms
    unfolding findPatternInSections_chain
    by (auto split: option.splits prod.splits
        dest: scanSections_result[OF _ z(1)] scanSections_result[OF _ z(2)])
qed

lemma adjustNameConfidence_signature:
  assumes "sectionType r = Some ''signature''" "confidence r \<le> 30"
  shows "adjustNameConfidence js r nm \<le> - 2"
  using assms by (simp add: adjustNameConfidence_def Let_def)

text \<open>
  Claim C5 fails on the code. The document \<open>officeDocument\<close> has its only name in the
  office-use block, which the divider tags as the signature section. The matcher finds it
  in the signature band at confidence \<open>30 - 5 * index\<close>, the extractor subtracts 50, adds at
  most 18 and caps the result from above only (\<open>adjustNameConfidence_signature\<close>: whatever
  the engine, at most \<open>-2\<close> is left). The confidence it returns is negative, with a service
  that was never initialised (index 5) and with the seeded registry (index 1).
\<close>

theorem signature_name_confidence_negative:
  "divideDocumentIntoSections officeRuntime officeDocument 10 = Inr officeSections \<and>
   findPatternInSections officeRuntime officeSections (getPatterns newService ''customerName'' @ defaultNamePatterns) =
     \<lparr> position = 95, match = Some ''Karim Abu Taha'', confidence = 5,
       sectionType = Some ''signature'' \<rparr> \<and>
   extractCustomerName officeRuntime newService officeSections =
     \<lparr> fieldValue = ''Karim Abu Taha'', fieldConfidence = - 35, fieldPosition = 95 \<rparr> \<and>
   extractCustomerName officeRuntime seededService officeSections =
     \<lparr> fieldValue = ''Karim Abu Taha'', fieldConfidence = - 15, fieldPosition = 95 \<rparr>"
  by code_simp
section \<open>Properties of the registry accessor\<close>

text \<open>
  Claim C10. \<^verbatim>\<open>getPatterns\<close> returns the empty list when the service has not completed
  \<^verbatim>\<open>initialize\<close>, and when the in-memory registry has no entry for the field type. It has
  no statement that throws: in the model it is a total function to lists, with no error
  value.
\<close>

theorem getPatterns_empty:
  "(\<not> initialized st \<longrightarrow> getPatterns st ft = []) \<and>
   (patternRegistry st ft = None \<longrightarrow> getPatterns st ft = [])"
  by (simp add: getPatterns_def)

theorem getPatterns_empty_witness:
  "\<not> initialized newService \<and> getPatterns newService ''customerName'' = [] \<and>
   initialized seededService \<and> patternRegistry seededService ''invoiceNumber'' = None \<and>
   getPatterns seededService ''invoiceNumber'' = [] \<and>
   length (getPatterns seededService ''customerName'') = 2"
proof -
  have a: "\<not> initialized newService" by (simp add: newService_def)
  have b: "initialized seededService" by (simp add: seededService_def initialize_initialized)
  have c: "patternRegistry seededService ''invoiceNumber'' = None" by code_simp
  have d: "length (getPatterns seededService ''customerName'') = 2" by code_simp
  show ?thesis
    using getPatterns_empty[of newService "''customerName''"]
      getPatterns_empty[of seededService "''invoiceNumber''"] a b c d
    by simp
qed

end
